theory Spec2Isabelle
  imports Main
begin

section \<open>Admin media servlets of synapse/rest/admin/media.py\<close>

text \<open>
  The file under verification is the administrative HTTP surface for media: eleven
  request handlers that authenticate the caller, parse and validate query parameters
  and forward to three collaborators (the auth object, the datastore and the media
  repository). The handlers are embedded as functions over an explicit state; the
  collaborators are the fields of a record, as the Python handlers reach them through
  \<^verbatim>\<open>self.store\<close>, \<^verbatim>\<open>self.auth\<close> and \<^verbatim>\<open>self.media_repository\<close>.
\<close>

subsection \<open>Errors\<close>

text \<open>
  The exceptions the handlers raise, one constructor per exception class used in the
  source. \<open>SynapseError code msg errcode\<close> carries the optional \<^verbatim>\<open>errcode=\<close> keyword:
  \<open>None\<close> when the call site passes none. \<open>StorageUnavailable\<close> stands for a failure
  raised inside a collaborator.
\<close>

datatype Codes = INVALID_PARAM | MISSING_PARAM

datatype error =
    SynapseError int string "Codes option"
  | NotFoundError string
  | AuthError int string
  | StorageUnavailable

text \<open>
  Modelled from the spec: the error taxonomy of section 7. The mapping from HTTP
  status to kind is not part of the servlet file; section 7 files the non-negative
  constraints, the unit-mismatch timestamp and the cross-origin delete attempt (all
  status 400 in the source) under \<open>InvalidParameter\<close>, unknown user/room/media
  under \<open>NotFound\<close> and the non-admin caller under \<open>Forbidden\<close>. So the kind of
  a \<^verbatim>\<open>SynapseError\<close> follows its status, whether or not the call site names an
  \<^verbatim>\<open>errcode\<close>.
\<close>

datatype error_kind = InvalidParameter | NotFound | Forbidden | StorageFailure | OtherError

fun kind :: "error \<Rightarrow> error_kind" where
  "kind (SynapseError code msg errcode) = (if code = 400 then InvalidParameter else OtherError)"
| "kind (NotFoundError msg) = NotFound"
| "kind (AuthError code msg) = (if code = 403 then Forbidden else OtherError)"
| "kind StorageUnavailable = StorageFailure"

subsection \<open>Requests, rows and responses\<close>

text \<open>
  \<open>args\<close> is \<^verbatim>\<open>request.args\<close> restricted to the first value of each query parameter
  (the only one the parsing helpers read); \<open>access_token\<close> is what the auth collaborator
  identifies the caller by.
\<close>

record request =
  args :: "string \<rightharpoonup> string"
  access_token :: string

text \<open>
  Modelled from the spec: the MediaRecord of section 3, which is also the row type of
  the paginated listing. \<open>uploader\<close> is the user the listing filters on.
\<close>

record media_record =
  rec_media_id :: string
  rec_server_name :: string
  uploader :: string
  upload_name :: string
  media_type :: string
  media_length :: int
  created_ts :: int
  last_access_ts :: int
  quarantined_by :: "string option"
  safe_from_quarantine :: bool

text \<open>
  The JSON bodies the handlers return, one constructor per shape. In \<open>UserMedia\<close> the
  third field is the key \<^verbatim>\<open>next_token\<close>: \<open>None\<close> when the key is absent.
\<close>

datatype response =
    EmptyDict
  | NumQuarantined int
  | RoomMedia "string list" "string list"
  | DeletedMedia "string list" int
  | UserMedia "media_record list" int "int option"

subsection \<open>Awaiting collaborators\<close>

text \<open>
  An action runs on a state and returns either the raised error or a value, with the
  state it leaves. \<open>await m f\<close> is \<^verbatim>\<open>x = await m; f(x)\<close>: an error raised by \<open>m\<close>
  propagates and \<open>f\<close> does not run. \<open>query\<close> lifts a collaborator call that reads the
  state and may raise, but writes nothing.
\<close>

type_synonym ('a, 's) action = "'s \<Rightarrow> (error + 'a) \<times> 's"

definition await :: "('a, 's) action \<Rightarrow> ('a \<Rightarrow> ('b, 's) action) \<Rightarrow> ('b, 's) action" where
  "await m f = (\<lambda>s. case m s of (Inl e, s') \<Rightarrow> (Inl e, s') | (Inr a, s') \<Rightarrow> f a s')"

definition return :: "'a \<Rightarrow> ('a, 's) action" where
  "return a = (\<lambda>s. (Inr a, s))"

definition raise :: "error \<Rightarrow> ('a, 's) action" where
  "raise e = (\<lambda>s. (Inl e, s))"

definition query :: "('s \<Rightarrow> error + 'a) \<Rightarrow> ('a, 's) action" where
  "query g = (\<lambda>s. (g s, s))"

definition parsed :: "error + 'a \<Rightarrow> ('a, 's) action" where
  "parsed r = (\<lambda>s. (r, s))"

subsection \<open>The home server\<close>

text \<open>
  Everything the handlers obtain from \<^verbatim>\<open>hs\<close> or import from modules that are not
  in this file, as parameters. \<open>'s\<close> is the state of the server, \<open>'u\<close> the type of
  a \<^verbatim>\<open>UserID\<close>. Collaborator calls named \<^verbatim>\<open>get_*\<close> or \<^verbatim>\<open>is_*\<close> read the
  state; the others are actions. \<open>get_user_by_req\<close> gives the \<^verbatim>\<open>requester.user\<close> of
  the source, the only part of the requester the handlers use. \<open>py_int\<close> is Python's
  \<^verbatim>\<open>int()\<close> on the raw value of a query parameter.
\<close>

record ('s, 'u) homeserver =
  hostname :: string
  is_mine :: "'u \<Rightarrow> bool"
  UserID_from_string :: "string \<Rightarrow> error + 'u"
  to_string :: "'u \<Rightarrow> string"
  py_int :: "string \<Rightarrow> int option"
  get_user_by_req :: "request \<Rightarrow> 's \<Rightarrow> error + 'u"
  is_server_admin :: "'u \<Rightarrow> 's \<Rightarrow> error + bool"
  quarantine_media_ids_in_room :: "string \<Rightarrow> string \<Rightarrow> (int, 's) action"
  quarantine_media_ids_by_user :: "string \<Rightarrow> string \<Rightarrow> (int, 's) action"
  quarantine_media_by_id :: "string \<Rightarrow> string \<Rightarrow> string option \<Rightarrow> (int, 's) action"
  mark_local_media_as_safe :: "string \<Rightarrow> bool \<Rightarrow> (unit, 's) action"
  get_media_mxcs_in_room :: "string \<Rightarrow> 's \<Rightarrow> error + (string list \<times> string list)"
  get_local_media :: "string \<Rightarrow> 's \<Rightarrow> error + media_record option"
  get_user_by_id :: "string \<Rightarrow> 's \<Rightarrow> error + string option"
  get_local_media_by_user_paginate ::
    "int \<Rightarrow> int \<Rightarrow> string \<Rightarrow> string \<Rightarrow> string \<Rightarrow> 's \<Rightarrow> error + (media_record list \<times> int)"
  delete_old_remote_media :: "int \<Rightarrow> (response, 's) action"
  delete_local_media_ids :: "string list \<Rightarrow> (string list \<times> int, 's) action"
  delete_old_local_media :: "int \<Rightarrow> int \<Rightarrow> bool \<Rightarrow> (string list \<times> int, 's) action"

subsection \<open>Imported helpers\<close>

text \<open>
  Modelled from the spec: \<^verbatim>\<open>assert_user_is_admin\<close> and
  \<^verbatim>\<open>assert_requester_is_admin\<close> of the sibling module
  \<^verbatim>\<open>synapse.rest.admin._base\<close> are not part of the servlet file. Section 6: every
  entry point requires a caller proven to be a server administrator; failure yields
  Forbidden. The body is the one \<^verbatim>\<open>ListMediaInRoom.on_GET\<close> writes inline.
\<close>

definition assert_user_is_admin :: "('s, 'u) homeserver \<Rightarrow> 'u \<Rightarrow> (unit, 's) action" where
  "assert_user_is_admin hs user =
     await (query (is_server_admin hs user)) (\<lambda>is_admin.
       if \<not> is_admin then raise (AuthError 403 ''You are not a server admin'')
       else return ())"

definition assert_requester_is_admin :: "('s, 'u) homeserver \<Rightarrow> request \<Rightarrow> (unit, 's) action" where
  "assert_requester_is_admin hs request =
     await (query (get_user_by_req hs request)) (\<lambda>requester.
       assert_user_is_admin hs requester)"

text \<open>
  Modelled from the spec: \<^verbatim>\<open>parse_integer\<close>, \<^verbatim>\<open>parse_boolean\<close> and
  \<^verbatim>\<open>parse_string\<close> of \<^verbatim>\<open>synapse.http.servlet\<close> are not part of the servlet
  file, and the spec leaves parameter parsing to the transport layer. Their contract is
  the one the call sites' keywords and the docstring of \<^verbatim>\<open>UserMediaRestServlet\<close>
  (by default, a limit of 100 is used) name: a supplied parameter is converted (a value
  that does not convert, or is not among \<^verbatim>\<open>allowed_values\<close>, is a 400), an absent
  one yields \<^verbatim>\<open>default\<close> (here \<open>dflt\<close>), or a 400 when \<^verbatim>\<open>required=True\<close>.
  The two call shapes of \<^verbatim>\<open>parse_integer\<close> in the source are two definitions.
\<close>

definition parse_integer_required :: "('s, 'u) homeserver \<Rightarrow> request \<Rightarrow> string \<Rightarrow> error + int" where
  "parse_integer_required hs request name =
     (case args request name of
        None \<Rightarrow> Inl (SynapseError 400 ''Missing integer query parameter'' (Some MISSING_PARAM))
      | Some v \<Rightarrow>
          (case py_int hs v of
             None \<Rightarrow> Inl (SynapseError 400 ''Query parameter must be an integer'' (Some INVALID_PARAM))
           | Some i \<Rightarrow> Inr i))"

definition parse_integer :: "('s, 'u) homeserver \<Rightarrow> request \<Rightarrow> string \<Rightarrow> int \<Rightarrow> error + int" where
  "parse_integer hs request name dflt =
     (case args request name of
        None \<Rightarrow> Inr dflt
      | Some v \<Rightarrow>
          (case py_int hs v of
             None \<Rightarrow> Inl (SynapseError 400 ''Query parameter must be an integer'' (Some INVALID_PARAM))
           | Some i \<Rightarrow> Inr i))"

definition parse_boolean :: "request \<Rightarrow> string \<Rightarrow> bool \<Rightarrow> error + bool" where
  "parse_boolean request name dflt =
     (case args request name of
        None \<Rightarrow> Inr dflt
      | Some v \<Rightarrow>
          if v = ''true'' then Inr True
          else if v = ''false'' then Inr False
          else Inl (SynapseError 400 ''Boolean query parameter must be one of true, false'' None))"

definition parse_string :: "request \<Rightarrow> string \<Rightarrow> string \<Rightarrow> string list \<Rightarrow> error + string" where
  "parse_string request name dflt allowed_values =
     (case args request name of
        None \<Rightarrow> Inr dflt
      | Some v \<Rightarrow>
          if v \<in> set allowed_values then Inr v
          else Inl (SynapseError 400 ''Query parameter must be one of the allowed values''
                      (Some INVALID_PARAM)))"

text \<open>
  Modelled from the spec: the enum \<^verbatim>\<open>MediaSortOrder\<close> of the storage layer is not
  part of the servlet file; section 4.1 lists the sort keys, and \<open>value_of\<close> is the
  \<^verbatim>\<open>.value\<close> of a member.
\<close>

datatype MediaSortOrder =
    MEDIA_ID | UPLOAD_NAME | CREATED_TS | LAST_ACCESS_TS
  | MEDIA_LENGTH | MEDIA_TYPE | QUARANTINED_BY | SAFE_FROM_QUARANTINE

fun value_of :: "MediaSortOrder \<Rightarrow> string" where
  "value_of MEDIA_ID = ''media_id''"
| "value_of UPLOAD_NAME = ''upload_name''"
| "value_of CREATED_TS = ''created_ts''"
| "value_of LAST_ACCESS_TS = ''last_access_ts''"
| "value_of MEDIA_LENGTH = ''media_length''"
| "value_of MEDIA_TYPE = ''media_type''"
| "value_of QUARANTINED_BY = ''quarantined_by''"
| "value_of SAFE_FROM_QUARANTINE = ''safe_from_quarantine''"

subsection \<open>The handlers\<close>

text \<open>
  Each handler returns the pair of its outcome (the raised error, or the status and the
  body) and the state it leaves. Logging is dropped.
\<close>

type_synonym 's handler = "(int \<times> response, 's) action"

definition QuarantineMediaInRoom_on_POST ::
  "('s, 'u) homeserver \<Rightarrow> request \<Rightarrow> string \<Rightarrow> 's handler" where
  "QuarantineMediaInRoom_on_POST hs request room_id =
     await (query (get_user_by_req hs request)) (\<lambda>requester.
     await (assert_user_is_admin hs requester) (\<lambda>_.
     await (quarantine_media_ids_in_room hs room_id (to_string hs requester)) (\<lambda>num_quarantined.
     return (200, NumQuarantined num_quarantined))))"

definition QuarantineMediaByUser_on_POST ::
  "('s, 'u) homeserver \<Rightarrow> request \<Rightarrow> string \<Rightarrow> 's handler" where
  "QuarantineMediaByUser_on_POST hs request user_id =
     await (query (get_user_by_req hs request)) (\<lambda>requester.
     await (assert_user_is_admin hs requester) (\<lambda>_.
     await (quarantine_media_ids_by_user hs user_id (to_string hs requester)) (\<lambda>num_quarantined.
     return (200, NumQuarantined num_quarantined))))"

definition QuarantineMediaByID_on_POST ::
  "('s, 'u) homeserver \<Rightarrow> request \<Rightarrow> string \<Rightarrow> string \<Rightarrow> 's handler" where
  "QuarantineMediaByID_on_POST hs request server_name media_id =
     await (query (get_user_by_req hs request)) (\<lambda>requester.
     await (assert_user_is_admin hs requester) (\<lambda>_.
     await (quarantine_media_by_id hs server_name media_id (Some (to_string hs requester))) (\<lambda>_.
     return (200, EmptyDict))))"

definition UnquarantineMediaByID_on_POST ::
  "('s, 'u) homeserver \<Rightarrow> request \<Rightarrow> string \<Rightarrow> string \<Rightarrow> 's handler" where
  "UnquarantineMediaByID_on_POST hs request server_name media_id =
     await (query (get_user_by_req hs request)) (\<lambda>requester.
     await (assert_user_is_admin hs requester) (\<lambda>_.
     await (quarantine_media_by_id hs server_name media_id None) (\<lambda>_.
     return (200, EmptyDict))))"

definition ProtectMediaByID_on_POST ::
  "('s, 'u) homeserver \<Rightarrow> request \<Rightarrow> string \<Rightarrow> 's handler" where
  "ProtectMediaByID_on_POST hs request media_id =
     await (query (get_user_by_req hs request)) (\<lambda>requester.
     await (assert_user_is_admin hs requester) (\<lambda>_.
     await (mark_local_media_as_safe hs media_id True) (\<lambda>_.
     return (200, EmptyDict))))"

definition UnprotectMediaByID_on_POST ::
  "('s, 'u) homeserver \<Rightarrow> request \<Rightarrow> string \<Rightarrow> 's handler" where
  "UnprotectMediaByID_on_POST hs request media_id =
     await (query (get_user_by_req hs request)) (\<lambda>requester.
     await (assert_user_is_admin hs requester) (\<lambda>_.
     await (mark_local_media_as_safe hs media_id False) (\<lambda>_.
     return (200, EmptyDict))))"

definition ListMediaInRoom_on_GET ::
  "('s, 'u) homeserver \<Rightarrow> request \<Rightarrow> string \<Rightarrow> 's handler" where
  "ListMediaInRoom_on_GET hs request room_id =
     await (query (get_user_by_req hs request)) (\<lambda>requester.
     await (query (is_server_admin hs requester)) (\<lambda>is_admin.
     if \<not> is_admin then raise (AuthError 403 ''You are not a server admin'')
     else
       await (query (get_media_mxcs_in_room hs room_id)) (\<lambda>(local_mxcs, remote_mxcs).
       return (200, RoomMedia local_mxcs remote_mxcs))))"

definition PurgeMediaCacheRestServlet_on_POST ::
  "('s, 'u) homeserver \<Rightarrow> request \<Rightarrow> 's handler" where
  "PurgeMediaCacheRestServlet_on_POST hs request =
     await (assert_requester_is_admin hs request) (\<lambda>_.
     await (parsed (parse_integer_required hs request ''before_ts'')) (\<lambda>before_ts.
     if before_ts < 0 then
       raise (SynapseError 400 ''Query parameter before_ts must be a positive integer.''
                (Some INVALID_PARAM))
     else if before_ts < 30000000000 then
       raise (SynapseError 400
                (''Query parameter before_ts you provided is from the year 1970. '' @
                 ''Double check that you are providing a timestamp in milliseconds.'')
                (Some INVALID_PARAM))
     else
       await (delete_old_remote_media hs before_ts) (\<lambda>ret.
       return (200, ret))))"

definition DeleteMediaByID_on_DELETE ::
  "('s, 'u) homeserver \<Rightarrow> request \<Rightarrow> string \<Rightarrow> string \<Rightarrow> 's handler" where
  "DeleteMediaByID_on_DELETE hs request server_name media_id =
     await (assert_requester_is_admin hs request) (\<lambda>_.
     if hostname hs \<noteq> server_name then
       raise (SynapseError 400 ''Can only delete local media'' None)
     else
       await (query (get_local_media hs media_id)) (\<lambda>found.
       if found = None then raise (NotFoundError ''Unknown media'')
       else
         await (delete_local_media_ids hs [media_id]) (\<lambda>(deleted_media, total).
         return (200, DeletedMedia deleted_media total))))"

definition DeleteMediaByDateSize_on_POST ::
  "('s, 'u) homeserver \<Rightarrow> request \<Rightarrow> string \<Rightarrow> 's handler" where
  "DeleteMediaByDateSize_on_POST hs request server_name =
     await (assert_requester_is_admin hs request) (\<lambda>_.
     await (parsed (parse_integer_required hs request ''before_ts'')) (\<lambda>before_ts.
     await (parsed (parse_integer hs request ''size_gt'' 0)) (\<lambda>size_gt.
     await (parsed (parse_boolean request ''keep_profiles'' True)) (\<lambda>keep_profiles.
     if before_ts < 0 then
       raise (SynapseError 400 ''Query parameter before_ts must be a positive integer.''
                (Some INVALID_PARAM))
     else if before_ts < 30000000000 then
       raise (SynapseError 400
                (''Query parameter before_ts you provided is from the year 1970. '' @
                 ''Double check that you are providing a timestamp in milliseconds.'')
                (Some INVALID_PARAM))
     else if size_gt < 0 then
       raise (SynapseError 400
                ''Query parameter size_gt must be a string representing a positive integer.''
                (Some INVALID_PARAM))
     else if hostname hs \<noteq> server_name then
       raise (SynapseError 400 ''Can only delete local media'' None)
     else
       await (delete_old_local_media hs before_ts size_gt keep_profiles) (\<lambda>(deleted_media, total).
       return (200, DeletedMedia deleted_media total))))))"

text \<open>
  \<^verbatim>\<open>UserMediaRestServlet\<close>: \<open>on_GET\<close> and \<open>on_DELETE\<close> share their first 55
  lines (the checks on the user, \<^verbatim>\<open>from\<close> and \<^verbatim>\<open>limit\<close>, and the choice of the
  sort), written once here as \<open>user_media_page\<close>, which ends with the call of
  \<^verbatim>\<open>get_local_media_by_user_paginate\<close> both make. \<open>sort_order\<close> is the branch on
  \<^verbatim>\<open>order_by\<close> and \<^verbatim>\<open>dir\<close> inside it. The assertion that \<^verbatim>\<open>request.args\<close>
  is set always holds here: \<open>args\<close> is a field of every request.
\<close>

definition sort_order :: "request \<Rightarrow> error + (string \<times> string)" where
  "sort_order request =
     (if args request ''order_by'' = None \<and> args request ''dir'' = None then
        Inr (value_of CREATED_TS, ''b'')
      else
        (case parse_string request ''order_by'' (value_of CREATED_TS)
                [value_of MEDIA_ID, value_of UPLOAD_NAME, value_of CREATED_TS,
                 value_of LAST_ACCESS_TS, value_of MEDIA_LENGTH, value_of MEDIA_TYPE,
                 value_of QUARANTINED_BY, value_of SAFE_FROM_QUARANTINE] of
           Inl e \<Rightarrow> Inl e
         | Inr order_by \<Rightarrow>
             (case parse_string request ''dir'' ''f'' [''f'', ''b''] of
                Inl e \<Rightarrow> Inl e
              | Inr direction \<Rightarrow> Inr (order_by, direction))))"

definition user_media_page ::
  "('s, 'u) homeserver \<Rightarrow> request \<Rightarrow> string \<Rightarrow> (int \<times> int \<times> media_record list \<times> int, 's) action" where
  "user_media_page hs request user_id =
     await (assert_requester_is_admin hs request) (\<lambda>_.
     await (parsed (UserID_from_string hs user_id)) (\<lambda>uid.
     if \<not> is_mine hs uid then
       raise (SynapseError 400 ''Can only look up local users'' None)
     else
       await (query (get_user_by_id hs user_id)) (\<lambda>user.
       if user = None then raise (NotFoundError ''Unknown user'')
       else
         await (parsed (parse_integer hs request ''from'' 0)) (\<lambda>start.
         await (parsed (parse_integer hs request ''limit'' 100)) (\<lambda>limit.
         if start < 0 then
           raise (SynapseError 400
                    ''Query parameter from must be a string representing a positive integer.''
                    (Some INVALID_PARAM))
         else if limit < 0 then
           raise (SynapseError 400
                    ''Query parameter limit must be a string representing a positive integer.''
                    (Some INVALID_PARAM))
         else
           await (parsed (sort_order request)) (\<lambda>(order_by, direction).
           await (query (get_local_media_by_user_paginate hs start limit user_id order_by direction))
             (\<lambda>(media, total).
           return (start, limit, media, total))))))))"

definition UserMediaRestServlet_on_GET ::
  "('s, 'u) homeserver \<Rightarrow> request \<Rightarrow> string \<Rightarrow> 's handler" where
  "UserMediaRestServlet_on_GET hs request user_id =
     await (user_media_page hs request user_id) (\<lambda>(start, limit, media, total).
     return (200,
       if start + limit < total then UserMedia media total (Some (start + int (length media)))
       else UserMedia media total None))"

definition UserMediaRestServlet_on_DELETE ::
  "('s, 'u) homeserver \<Rightarrow> request \<Rightarrow> string \<Rightarrow> 's handler" where
  "UserMediaRestServlet_on_DELETE hs request user_id =
     await (user_media_page hs request user_id) (\<lambda>(start, limit, media, _).
     await (delete_local_media_ids hs (map rec_media_id media)) (\<lambda>(deleted_media, total).
     return (200, DeletedMedia deleted_media total)))"

section \<open>The engine behind the collaborators\<close>

text \<open>
  The datastore, the media repository and the auth object are not part of the servlet
  file. Where a property depends on what they do, they are the engine of sections 3
  and 4 of the specification, written out below over one state record. Each definition
  of this section is modelled from the spec and says which sentences it follows.
\<close>

subsection \<open>State\<close>

text \<open>
  Modelled from the spec: \<^verbatim>\<open>UserID\<close> of \<^verbatim>\<open>synapse.types\<close> is not part of the servlet
  file. A user id has the form \<^verbatim>\<open>@localpart:domain\<close> and belongs to this server when
  its domain is the server's name.
\<close>

datatype UserID = UserID (localpart: string) (domain: string)

definition from_string :: "string \<Rightarrow> error + UserID" where
  "from_string s =
     (case s of
        [] \<Rightarrow> Inl (SynapseError 400 ''Expected UserID string to start with @'' (Some INVALID_PARAM))
      | c # rest \<Rightarrow>
          if c \<noteq> CHR ''@'' then
            Inl (SynapseError 400 ''Expected UserID string to start with @'' (Some INVALID_PARAM))
          else if CHR '':'' \<notin> set rest then
            Inl (SynapseError 400 ''Expected UserID of the form @localname:domain''
                   (Some INVALID_PARAM))
          else Inr (UserID (takeWhile (\<lambda>x. x \<noteq> CHR '':'') rest)
                           (tl (dropWhile (\<lambda>x. x \<noteq> CHR '':'') rest))))"

fun user_string :: "UserID \<Rightarrow> string" where
  "user_string (UserID l d) = ''@'' @ l @ '':'' @ d"

text \<open>
  Modelled from the spec: the state the four components of section 2 work on.
  \<open>records\<close> is the MediaRecordStore; \<open>room_index\<close> is the room/event index behind the
  RoomMediaResolver (local ids and remote references of each known room);
  \<open>profile_index\<close> lists the local media in use as profile pictures; \<open>adapter_err\<close> lists
  the keys for which the byte-storage adapter of section 6 answers \<^verbatim>\<open>err\<close>;
  \<open>access_tokens\<close>, \<open>server_admins\<close> and \<open>local_users\<close> are what authentication and the
  user lookup consult.
\<close>

record server_state =
  records :: "media_record list"
  room_index :: "(string \<times> string list \<times> (string \<times> string) list) list"
  profile_index :: "string list"
  adapter_err :: "(string \<times> string) list"
  access_tokens :: "(string \<times> UserID) list"
  server_admins :: "UserID list"
  local_users :: "string list"

definition key_of :: "media_record \<Rightarrow> string \<times> string" where
  "key_of r = (rec_server_name r, rec_media_id r)"

subsection \<open>MediaRecordStore\<close>

text \<open>
  Modelled from the spec, section 4.1: \<^verbatim>\<open>setQuarantine(keys, by)\<close>. Setting
  \<^verbatim>\<open>by = null\<close> clears the quarantine unconditionally; setting non-null skips (does not
  mutate, does not count) any key whose record has \<^verbatim>\<open>safe_from_quarantine = true\<close>.
  The count is the number of records whose flag actually changed (section 4.3).
\<close>

definition quarantine_record :: "string option \<Rightarrow> media_record \<Rightarrow> media_record" where
  "quarantine_record by r =
     (if by \<noteq> None \<and> safe_from_quarantine r then r else r\<lparr>quarantined_by := by\<rparr>)"

fun setQuarantine ::
  "(string \<times> string) list \<Rightarrow> string option \<Rightarrow> media_record list \<Rightarrow> nat \<times> media_record list" where
  "setQuarantine keys by [] = (0, [])"
| "setQuarantine keys by (r # rs) =
     (let (n, rs') = setQuarantine keys by rs;
          r' = (if key_of r \<in> set keys then quarantine_record by r else r)
      in ((if quarantined_by r' \<noteq> quarantined_by r then Suc n else n), r' # rs'))"

text \<open>
  Modelled from the spec, section 4.1: \<^verbatim>\<open>setSafe(media_id, safe)\<close>, local media only;
  setting \<^verbatim>\<open>safe = true\<close> also clears \<^verbatim>\<open>quarantined_by\<close>.
\<close>

definition safe_record :: "bool \<Rightarrow> media_record \<Rightarrow> media_record" where
  "safe_record safe r =
     (if safe then r\<lparr>safe_from_quarantine := True, quarantined_by := None\<rparr>
      else r\<lparr>safe_from_quarantine := False\<rparr>)"

definition setSafe :: "string \<Rightarrow> string \<Rightarrow> bool \<Rightarrow> media_record list \<Rightarrow> media_record list" where
  "setSafe host media_id safe rs =
     map (\<lambda>r. if key_of r = (host, media_id) then safe_record safe r else r) rs"

text \<open>
  Modelled from the spec, section 4.1: \<^verbatim>\<open>listByUser\<close>. The rows of the user's local
  media, sorted on the sort key in the given direction with ties broken on
  \<^verbatim>\<open>media_id\<close> ascending, then the page \<^verbatim>\<open>[offset, offset + limit)\<close> of them together
  with the total count. Strings compare byte by byte; an absent \<^verbatim>\<open>quarantined_by\<close>
  sorts first, \<^verbatim>\<open>false\<close> before \<^verbatim>\<open>true\<close>.
\<close>

fun str_less :: "string \<Rightarrow> string \<Rightarrow> bool" where
  "str_less [] [] = False"
| "str_less [] (y # ys) = True"
| "str_less (x # xs) [] = False"
| "str_less (x # xs) (y # ys) =
     ((of_char x :: nat) < of_char y \<or> (x = y \<and> str_less xs ys))"

fun key_less :: "MediaSortOrder \<Rightarrow> media_record \<Rightarrow> media_record \<Rightarrow> bool" where
  "key_less MEDIA_ID a b = str_less (rec_media_id a) (rec_media_id b)"
| "key_less UPLOAD_NAME a b = str_less (upload_name a) (upload_name b)"
| "key_less CREATED_TS a b = (created_ts a < created_ts b)"
| "key_less LAST_ACCESS_TS a b = (last_access_ts a < last_access_ts b)"
| "key_less MEDIA_LENGTH a b = (media_length a < media_length b)"
| "key_less MEDIA_TYPE a b = str_less (media_type a) (media_type b)"
| "key_less QUARANTINED_BY a b =
     (case (quarantined_by a, quarantined_by b) of
        (None, Some y) \<Rightarrow> True
      | (Some x, Some y) \<Rightarrow> str_less x y
      | _ \<Rightarrow> False)"
| "key_less SAFE_FROM_QUARANTINE a b = (\<not> safe_from_quarantine a \<and> safe_from_quarantine b)"

definition row_before :: "MediaSortOrder \<Rightarrow> string \<Rightarrow> media_record \<Rightarrow> media_record \<Rightarrow> bool" where
  "row_before k direction a b =
     (let lt = (if direction = ''b'' then key_less k b a else key_less k a b);
          gt = (if direction = ''b'' then key_less k a b else key_less k b a)
      in lt \<or> (\<not> gt \<and> \<not> str_less (rec_media_id b) (rec_media_id a)))"

fun insert_row :: "('a \<Rightarrow> 'a \<Rightarrow> bool) \<Rightarrow> 'a \<Rightarrow> 'a list \<Rightarrow> 'a list" where
  "insert_row le x [] = [x]"
| "insert_row le x (y # ys) = (if le x y then x # y # ys else y # insert_row le x ys)"

fun sort_rows :: "('a \<Rightarrow> 'a \<Rightarrow> bool) \<Rightarrow> 'a list \<Rightarrow> 'a list" where
  "sort_rows le [] = []"
| "sort_rows le (x # xs) = insert_row le x (sort_rows le xs)"

definition user_rows :: "string \<Rightarrow> string \<Rightarrow> media_record list \<Rightarrow> media_record list" where
  "user_rows host user_id rs =
     filter (\<lambda>r. rec_server_name r = host \<and> uploader r = user_id) rs"

definition listByUser ::
  "string \<Rightarrow> int \<Rightarrow> int \<Rightarrow> string \<Rightarrow> string \<Rightarrow> string \<Rightarrow> media_record list
     \<Rightarrow> error + (media_record list \<times> int)" where
  "listByUser host offset limit user_id sortKey direction rs =
     (case find (\<lambda>k. value_of k = sortKey)
             [MEDIA_ID, UPLOAD_NAME, CREATED_TS, LAST_ACCESS_TS,
              MEDIA_LENGTH, MEDIA_TYPE, QUARANTINED_BY, SAFE_FROM_QUARANTINE] of
        None \<Rightarrow> Inl (SynapseError 400 ''Unknown sort key'' (Some INVALID_PARAM))
      | Some k \<Rightarrow>
          (let rows = sort_rows (row_before k direction) (user_rows host user_id rs)
           in Inr (take (nat limit) (drop (nat offset) rows), int (length rows))))"

subsection \<open>RoomMediaResolver and QuarantineEngine\<close>

text \<open>
  Modelled from the spec, sections 4.2 and 4.3: \<^verbatim>\<open>resolve\<close> fails with RoomNotFound
  for a room unknown to this server; \<^verbatim>\<open>quarantineRoom\<close> resolves and then sets the
  quarantine on the union of the local and remote keys; \<^verbatim>\<open>quarantineUser\<close> does so on
  the local media the user uploaded; \<^verbatim>\<open>quarantineById\<close> is void or NotFound, and with
  no actor it is \<^verbatim>\<open>unquarantineById\<close>, which always succeeds; \<^verbatim>\<open>protect\<close> and
  \<^verbatim>\<open>unprotect\<close> are \<^verbatim>\<open>setSafe\<close>.
\<close>

definition resolve ::
  "string \<Rightarrow> server_state \<Rightarrow> error + (string list \<times> (string \<times> string) list)" where
  "resolve room_id s =
     (case map_of (room_index s) room_id of
        None \<Rightarrow> Inl (NotFoundError ''Unknown room'')
      | Some found \<Rightarrow> Inr found)"

definition apply_quarantine ::
  "(string \<times> string) list \<Rightarrow> string option \<Rightarrow> (int, server_state) action" where
  "apply_quarantine keys by s =
     (let (n, rs) = setQuarantine keys by (records s)
      in (Inr (int n), s\<lparr>records := rs\<rparr>))"

definition quarantineRoom :: "string \<Rightarrow> string \<Rightarrow> string \<Rightarrow> (int, server_state) action" where
  "quarantineRoom host room_id actor =
     await (query (resolve room_id)) (\<lambda>(localMediaIds, remoteMediaRefs).
     apply_quarantine (map (Pair host) localMediaIds @ remoteMediaRefs) (Some actor))"

definition quarantineUser :: "string \<Rightarrow> string \<Rightarrow> string \<Rightarrow> (int, server_state) action" where
  "quarantineUser host user_id actor s =
     apply_quarantine (map key_of (user_rows host user_id (records s))) (Some actor) s"

definition quarantineById ::
  "string \<Rightarrow> string \<Rightarrow> string option \<Rightarrow> (int, server_state) action" where
  "quarantineById server_name media_id by s =
     (if by \<noteq> None \<and> (server_name, media_id) \<notin> key_of ` set (records s) then
        (Inl (NotFoundError ''Unknown media''), s)
      else apply_quarantine [(server_name, media_id)] by s)"

definition protect :: "string \<Rightarrow> string \<Rightarrow> bool \<Rightarrow> (unit, server_state) action" where
  "protect host media_id safe s = (Inr (), s\<lparr>records := setSafe host media_id safe (records s)\<rparr>)"

subsection \<open>RetentionPurger\<close>

text \<open>
  Modelled from the spec, section 4.4: the deletion procedure for a candidate set. For
  each candidate the store entry and the backing bytes go together or not at all: where
  the byte-storage adapter answers \<^verbatim>\<open>err\<close> the record is left intact and the item is
  excluded from the deleted tally, and the batch goes on. A candidate with no record is
  ignored. The result is the deleted ids in order and the number of candidates.
\<close>

fun delete_candidates ::
  "(string \<times> string) list \<Rightarrow> server_state \<Rightarrow> string list \<times> server_state" where
  "delete_candidates [] s = ([], s)"
| "delete_candidates (k # ks) s =
     (if k \<in> set (adapter_err s) \<or> k \<notin> key_of ` set (records s) then delete_candidates ks s
      else
        (let (deleted, s') =
               delete_candidates ks (s\<lparr>records := filter (\<lambda>r. key_of r \<noteq> k) (records s)\<rparr>)
         in (snd k # deleted, s')))"

definition purge :: "(string \<times> string) list \<Rightarrow> (string list \<times> int, server_state) action" where
  "purge candidates s =
     (let (deleted, s') = delete_candidates candidates s
      in (Inr (deleted, int (length candidates)), s'))"

text \<open>
  Modelled from the spec, section 4.4: the two selection modes. The age-only purge
  takes the remote-origin cached media with \<^verbatim>\<open>last_access_ts < before_ts\<close>; the
  age+size+safety purge takes the local media with \<^verbatim>\<open>created_ts < before_ts\<close> and
  \<^verbatim>\<open>media_length > size_gt\<close>, without the profile pictures when \<^verbatim>\<open>keep_profiles\<close>.
  Deleting given local ids runs the same procedure on those ids.
\<close>

definition purge_remote_cache :: "string \<Rightarrow> int \<Rightarrow> (response, server_state) action" where
  "purge_remote_cache host before_ts s =
     (case purge (map key_of (filter (\<lambda>r. rec_server_name r \<noteq> host \<and> last_access_ts r < before_ts)
                                  (records s))) s of
        (Inl e, s') \<Rightarrow> (Inl e, s')
      | (Inr (deleted, count), s') \<Rightarrow> (Inr (DeletedMedia deleted count), s'))"

definition purge_local ::
  "string \<Rightarrow> int \<Rightarrow> int \<Rightarrow> bool \<Rightarrow> (string list \<times> int, server_state) action" where
  "purge_local host before_ts size_gt keep_profiles s =
     purge (map key_of
              (filter (\<lambda>r. rec_server_name r = host \<and> created_ts r < before_ts
                           \<and> media_length r > size_gt
                           \<and> \<not> (keep_profiles \<and> rec_media_id r \<in> set (profile_index s)))
                      (records s))) s"

definition deleteByIds :: "string \<Rightarrow> string list \<Rightarrow> (string list \<times> int, server_state) action" where
  "deleteByIds host media_ids = purge (map (Pair host) media_ids)"

subsection \<open>Authentication and the assembled server\<close>

text \<open>
  Modelled from the spec, section 6: a caller is proven to be a server administrator
  when the access token identifies a user who is one; failure yields Forbidden.
\<close>

definition identify :: "request \<Rightarrow> server_state \<Rightarrow> error + UserID" where
  "identify request s =
     (case map_of (access_tokens s) (access_token request) of
        None \<Rightarrow> Inl (AuthError 403 ''Unrecognised access token'')
      | Some u \<Rightarrow> Inr u)"

definition engine :: "string \<Rightarrow> (string \<Rightarrow> int option) \<Rightarrow> (server_state, UserID) homeserver" where
  "engine host int_of =
     \<lparr> hostname = host,
       is_mine = (\<lambda>u. domain u = host),
       UserID_from_string = from_string,
       to_string = user_string,
       py_int = int_of,
       get_user_by_req = identify,
       is_server_admin = (\<lambda>u s. Inr (u \<in> set (server_admins s))),
       quarantine_media_ids_in_room = quarantineRoom host,
       quarantine_media_ids_by_user = quarantineUser host,
       quarantine_media_by_id = quarantineById,
       mark_local_media_as_safe = protect host,
       get_media_mxcs_in_room =
         (\<lambda>room_id s. case resolve room_id s of
                         Inl e \<Rightarrow> Inl e
                       | Inr (l, r) \<Rightarrow> Inr (l, map (\<lambda>(sn, mid). sn @ ''/'' @ mid) r)),
       get_local_media =
         (\<lambda>media_id s. Inr (find (\<lambda>r. key_of r = (host, media_id)) (records s))),
       get_user_by_id =
         (\<lambda>user_id s. Inr (if user_id \<in> set (local_users s) then Some user_id else None)),
       get_local_media_by_user_paginate =
         (\<lambda>start limit user_id order_by direction s.
            listByUser host start limit user_id order_by direction (records s)),
       delete_old_remote_media = purge_remote_cache host,
       delete_local_media_ids = deleteByIds host,
       delete_old_local_media = purge_local host \<rparr>"

subsection \<open>The invariant of the quarantine flags\<close>

text \<open>
  Section 3 of the specification: a record with \<^verbatim>\<open>safe_from_quarantine = true\<close> always
  has \<^verbatim>\<open>quarantined_by = null\<close>. \<open>preserves P m\<close> says that the action \<open>m\<close> leaves
  a state satisfying \<open>P\<close> in a state satisfying \<open>P\<close>, whether it returns or raises.
\<close>

definition safe_means_clear :: "media_record \<Rightarrow> bool" where
  "safe_means_clear r = (safe_from_quarantine r \<longrightarrow> quarantined_by r = None)"

definition quarantine_invariant :: "server_state \<Rightarrow> bool" where
  "quarantine_invariant s = list_all safe_means_clear (records s)"

definition preserves :: "('s \<Rightarrow> bool) \<Rightarrow> ('a, 's) action \<Rightarrow> bool" where
  "preserves P m = (\<forall>s. P s \<longrightarrow> P (snd (m s)))"

subsection \<open>A small server\<close>

text \<open>
  A concrete server on which the handlers are run: host \<^verbatim>\<open>hs\<close>, the administrator
  alice and the ordinary user bob, two local media of bob (\<^verbatim>\<open>B\<close> marked safe from
  quarantine), one cached remote medium, and a room that references all three.
  \<open>int_of\<close> gives the integer of each raw parameter value the examples send.
\<close>

definition medium :: "string \<Rightarrow> string \<Rightarrow> string \<Rightarrow> int \<Rightarrow> bool \<Rightarrow> media_record" where
  "medium server_name media_id user_id ts safe =
     \<lparr> rec_media_id = media_id, rec_server_name = server_name, uploader = user_id,
       upload_name = media_id, media_type = ''image/png'', media_length = 2000,
       created_ts = ts, last_access_ts = ts, quarantined_by = None,
       safe_from_quarantine = safe \<rparr>"

definition alice :: UserID where
  "alice = UserID ''alice'' ''hs''"

definition bob :: UserID where
  "bob = UserID ''bob'' ''hs''"

definition world :: server_state where
  "world =
     \<lparr> records = [medium ''hs'' ''A'' ''@bob:hs'' 1577836800001 False,
                  medium ''hs'' ''B'' ''@bob:hs'' 1577836800002 True,
                  medium ''remote'' ''C'' ''@carol:remote'' 1577836800003 False],
       room_index = [(''!room:hs'', [''A'', ''B''], [(''remote'', ''C'')])],
       profile_index = [],
       adapter_err = [],
       access_tokens = [(''alice_token'', alice), (''bob_token'', bob)],
       server_admins = [alice],
       local_users = [''@alice:hs'', ''@bob:hs''] \<rparr>"

definition ask :: "string \<Rightarrow> (string \<times> string) list \<Rightarrow> request" where
  "ask token query_args = \<lparr> args = map_of query_args, access_token = token \<rparr>"

definition int_of :: "string \<Rightarrow> int option" where
  "int_of v = map_of [(''1000'', 1000), (''-1'', -1), (''0'', 0), (''1'', 1), (''2'', 2),
                      (''1577836800003'', 1577836800003)] v"

definition server :: "(server_state, UserID) homeserver" where
  "server = engine ''hs'' int_of"

section \<open>Properties of the handlers\<close>

subsection \<open>Running the actions\<close>

lemmas action_defs = await_def return_def raise_def query_def parsed_def

lemmas handler_defs =
  QuarantineMediaInRoom_on_POST_def QuarantineMediaByUser_on_POST_def
  QuarantineMediaByID_on_POST_def UnquarantineMediaByID_on_POST_def
  ProtectMediaByID_on_POST_def UnprotectMediaByID_on_POST_def
  ListMediaInRoom_on_GET_def PurgeMediaCacheRestServlet_on_POST_def
  DeleteMediaByID_on_DELETE_def DeleteMediaByDateSize_on_POST_def
  UserMediaRestServlet_on_GET_def UserMediaRestServlet_on_DELETE_def user_media_page_def

lemmas example_defs =
  server_def engine_def world_def ask_def int_of_def alice_def bob_def medium_def identify_def

lemma assert_user_is_admin_apply:
  "assert_user_is_admin hs u s =
     (case is_server_admin hs u s of
        Inl e \<Rightarrow> (Inl e, s)
      | Inr b \<Rightarrow> if b then (Inr (), s) else (Inl (AuthError 403 ''You are not a server admin''), s))"
  by (simp add: assert_user_is_admin_def action_defs split: sum.splits)

lemma assert_requester_is_admin_apply:
  "assert_requester_is_admin hs request s =
     (case get_user_by_req hs request s of
        Inl e \<Rightarrow> (Inl e, s)
      | Inr u \<Rightarrow> assert_user_is_admin hs u s)"
  by (simp add: assert_requester_is_admin_def action_defs split: sum.splits)

lemma assert_requester_is_admin_state:
  "assert_requester_is_admin hs request s = (r, s') \<Longrightarrow> s' = s"
  by (auto simp add: assert_requester_is_admin_apply assert_user_is_admin_apply
           split: sum.splits if_splits)

lemma not_admin_rejected:
  assumes "get_user_by_req hs request s = Inr u" and "is_server_admin hs u s = Inr False"
  shows "assert_requester_is_admin hs request s
           = (Inl (AuthError 403 ''You are not a server admin''), s)"
    and "assert_user_is_admin hs u s = (Inl (AuthError 403 ''You are not a server admin''), s)"
  using assms by (simp_all add: assert_requester_is_admin_apply assert_user_is_admin_apply)

lemma admin_accepted:
  assumes "get_user_by_req hs request s = Inr u" and "is_server_admin hs u s = Inr True"
  shows "assert_requester_is_admin hs request s = (Inr (), s)"
    and "assert_user_is_admin hs u s = (Inr (), s)"
  using assms by (simp_all add: assert_requester_is_admin_apply assert_user_is_admin_apply)

lemma parse_updates [simp]:
  "parse_integer_required (hs\<lparr>delete_old_remote_media := d1\<rparr>) = parse_integer_required hs"
  "parse_integer_required (hs\<lparr>delete_old_local_media := d2\<rparr>) = parse_integer_required hs"
  "parse_integer (hs\<lparr>delete_old_local_media := d2\<rparr>) = parse_integer hs"
  "parse_integer (hs\<lparr>get_local_media_by_user_paginate := p, delete_local_media_ids := d3\<rparr>)
     = parse_integer hs"
  by (simp_all add: parse_integer_required_def parse_integer_def fun_eq_iff split: option.splits)

lemma alice_is_admin:
  "get_user_by_req server (ask ''alice_token'' qs) world = Inr alice"
  "is_server_admin server alice world = Inr True"
  by (simp_all add: example_defs)

subsection \<open>Authorization\<close>

text \<open>
  Claim C8. Every entry point (quarantine by room, by user and by id, unquarantine,
  protect, unprotect, list media in room, purge cache, delete by id, delete by
  date/size, list and delete user media): when the caller the request identifies is
  not a server administrator, the handler fails with \<^verbatim>\<open>AuthError(403)\<close>, which is
  Forbidden, and leaves the state as it was.
\<close>

theorem non_admin_is_forbidden:
  assumes "get_user_by_req hs request s = Inr u" and "is_server_admin hs u s = Inr False"
  shows "QuarantineMediaInRoom_on_POST hs request room_id s
           = (Inl (AuthError 403 ''You are not a server admin''), s)
       \<and> QuarantineMediaByUser_on_POST hs request user_id s
           = (Inl (AuthError 403 ''You are not a server admin''), s)
       \<and> QuarantineMediaByID_on_POST hs request server_name media_id s
           = (Inl (AuthError 403 ''You are not a server admin''), s)
       \<and> UnquarantineMediaByID_on_POST hs request server_name media_id s
           = (Inl (AuthError 403 ''You are not a server admin''), s)
       \<and> ProtectMediaByID_on_POST hs request media_id s
           = (Inl (AuthError 403 ''You are not a server admin''), s)
       \<and> UnprotectMediaByID_on_POST hs request media_id s
           = (Inl (AuthError 403 ''You are not a server admin''), s)
       \<and> ListMediaInRoom_on_GET hs request room_id s
           = (Inl (AuthError 403 ''You are not a server admin''), s)
       \<and> PurgeMediaCacheRestServlet_on_POST hs request s
           = (Inl (AuthError 403 ''You are not a server admin''), s)
       \<and> DeleteMediaByID_on_DELETE hs request server_name media_id s
           = (Inl (AuthError 403 ''You are not a server admin''), s)
       \<and> DeleteMediaByDateSize_on_POST hs request server_name s
           = (Inl (AuthError 403 ''You are not a server admin''), s)
       \<and> UserMediaRestServlet_on_GET hs request user_id s
           = (Inl (AuthError 403 ''You are not a server admin''), s)
       \<and> UserMediaRestServlet_on_DELETE hs request user_id s
           = (Inl (AuthError 403 ''You are not a server admin''), s)
       \<and> kind (AuthError 403 ''You are not a server admin'') = Forbidden"
  using assms
  by (simp add: handler_defs await_def query_def raise_def not_admin_rejected)

text \<open>The ordinary user bob asks for a room quarantine and for a deletion.\<close>

theorem non_admin_is_forbidden_witness:
  "get_user_by_req server (ask ''bob_token'' []) world = Inr bob
   \<and> is_server_admin server bob world = Inr False
   \<and> QuarantineMediaInRoom_on_POST server (ask ''bob_token'' []) ''!room:hs'' world
       = (Inl (AuthError 403 ''You are not a server admin''), world)
   \<and> DeleteMediaByID_on_DELETE server (ask ''bob_token'' []) ''hs'' ''A'' world
       = (Inl (AuthError 403 ''You are not a server admin''), world)"
proof -
  have h1: "get_user_by_req server (ask ''bob_token'' []) world = Inr bob"
    by (simp add: example_defs)
  have h2: "is_server_admin server bob world = Inr False"
    by (simp add: example_defs)
  show ?thesis
    using h1 h2 non_admin_is_forbidden [OF h1 h2, where room_id = "''!room:hs''"
                       and server_name = "''hs''" and media_id = "''A''"]
    by simp
qed

text \<open>
  A caller the auth collaborator cannot identify gets the error it raises, from every
  handler and with the state as it was.
\<close>

lemma unidentified_caller:
  assumes "get_user_by_req hs request s = Inl e"
  shows "QuarantineMediaInRoom_on_POST hs request room_id s = (Inl e, s)"
    and "QuarantineMediaByUser_on_POST hs request user_id s = (Inl e, s)"
    and "QuarantineMediaByID_on_POST hs request server_name media_id s = (Inl e, s)"
    and "UnquarantineMediaByID_on_POST hs request server_name media_id s = (Inl e, s)"
    and "ProtectMediaByID_on_POST hs request media_id s = (Inl e, s)"
    and "UnprotectMediaByID_on_POST hs request media_id s = (Inl e, s)"
    and "ListMediaInRoom_on_GET hs request room_id s = (Inl e, s)"
    and "PurgeMediaCacheRestServlet_on_POST hs request s = (Inl e, s)"
    and "DeleteMediaByID_on_DELETE hs request server_name media_id s = (Inl e, s)"
    and "DeleteMediaByDateSize_on_POST hs request server_name s = (Inl e, s)"
    and "UserMediaRestServlet_on_GET hs request user_id s = (Inl e, s)"
    and "UserMediaRestServlet_on_DELETE hs request user_id s = (Inl e, s)"
  using assms
  by (simp_all add: handler_defs await_def query_def assert_requester_is_admin_apply)

subsection \<open>Validation of the purge parameters\<close>

text \<open>
  Claim C2. For a purge request of an administrator (purge-media-cache and
  delete-by-date-size): when \<^verbatim>\<open>before_ts\<close> is negative or below the threshold
  30000000000 of plausible epoch milliseconds, or, for delete-by-date-size, when
  \<^verbatim>\<open>size_gt\<close> is negative, the handler fails with an error of kind InvalidParameter
  and leaves the state as it was. Where the other parameters parse, the error is the
  handler's own 400 carrying \<^verbatim>\<open>Codes.INVALID_PARAM\<close>. The outcome is the same
  whatever the media repository's purge would do, so nothing is selected. The value 1000
  is below the threshold.
\<close>

theorem purge_rejects_bad_parameters:
  assumes admin: "get_user_by_req hs request s = Inr u" "is_server_admin hs u s = Inr True"
  shows "(parse_integer_required hs request ''before_ts'' = Inr before_ts
            \<and> before_ts < 30000000000 \<longrightarrow>
            (\<exists>msg. \<forall>d. PurgeMediaCacheRestServlet_on_POST (hs\<lparr>delete_old_remote_media := d\<rparr>)
                         request s
                       = (Inl (SynapseError 400 msg (Some INVALID_PARAM)), s)))
       \<and> (parse_integer_required hs request ''before_ts'' = Inr before_ts
            \<and> parse_integer hs request ''size_gt'' 0 = Inr size_gt
            \<and> parse_boolean request ''keep_profiles'' True = Inr keep_profiles
            \<and> (before_ts < 30000000000 \<or> size_gt < 0) \<longrightarrow>
            (\<exists>msg. \<forall>d. DeleteMediaByDateSize_on_POST (hs\<lparr>delete_old_local_media := d\<rparr>)
                         request server_name s
                       = (Inl (SynapseError 400 msg (Some INVALID_PARAM)), s)))
       \<and> ((parse_integer_required hs request ''before_ts'' = Inr before_ts
              \<and> before_ts < 30000000000)
            \<or> (parse_integer hs request ''size_gt'' 0 = Inr size_gt \<and> size_gt < 0) \<longrightarrow>
            (\<exists>e. kind e = InvalidParameter
                 \<and> (\<forall>d. DeleteMediaByDateSize_on_POST (hs\<lparr>delete_old_local_media := d\<rparr>)
                            request server_name s
                          = (Inl e, s))))
       \<and> (\<forall>msg. kind (SynapseError 400 msg (Some INVALID_PARAM)) = InvalidParameter)"
proof -
  have pre: "\<And>h. get_user_by_req h = get_user_by_req hs \<Longrightarrow> is_server_admin h = is_server_admin hs
               \<Longrightarrow> assert_requester_is_admin h request s = (Inr (), s)"
    using admin by (simp add: assert_requester_is_admin_apply assert_user_is_admin_apply)
  have purge: "parse_integer_required hs request ''before_ts'' = Inr before_ts
            \<and> before_ts < 30000000000 \<longrightarrow>
            (\<exists>msg. \<forall>d. PurgeMediaCacheRestServlet_on_POST (hs\<lparr>delete_old_remote_media := d\<rparr>)
                         request s
                       = (Inl (SynapseError 400 msg (Some INVALID_PARAM)), s))"
    by (cases "before_ts < 0") (auto simp add: handler_defs action_defs pre)
  have exact: "parse_integer_required hs request ''before_ts'' = Inr before_ts
            \<and> parse_integer hs request ''size_gt'' 0 = Inr size_gt
            \<and> parse_boolean request ''keep_profiles'' True = Inr keep_profiles
            \<and> (before_ts < 30000000000 \<or> size_gt < 0) \<longrightarrow>
            (\<exists>msg. \<forall>d. DeleteMediaByDateSize_on_POST (hs\<lparr>delete_old_local_media := d\<rparr>)
                         request server_name s
                       = (Inl (SynapseError 400 msg (Some INVALID_PARAM)), s))"
    by (cases "before_ts < 0"; cases "before_ts < 30000000000")
       (auto simp add: handler_defs action_defs pre)
  have parse_kinds:
    "\<And>e. parse_integer_required hs request ''before_ts'' = Inl e \<Longrightarrow> kind e = InvalidParameter"
    "\<And>e. parse_integer hs request ''size_gt'' 0 = Inl e \<Longrightarrow> kind e = InvalidParameter"
    "\<And>e. parse_boolean request ''keep_profiles'' True = Inl e \<Longrightarrow> kind e = InvalidParameter"
    by (auto simp add: parse_integer_required_def parse_integer_def parse_boolean_def
             split: option.splits if_splits)
  have general: "(parse_integer_required hs request ''before_ts'' = Inr before_ts
              \<and> before_ts < 30000000000)
            \<or> (parse_integer hs request ''size_gt'' 0 = Inr size_gt \<and> size_gt < 0) \<longrightarrow>
            (\<exists>e. kind e = InvalidParameter
                 \<and> (\<forall>d. DeleteMediaByDateSize_on_POST (hs\<lparr>delete_old_local_media := d\<rparr>)
                            request server_name s
                          = (Inl e, s)))"
  proof (intro impI)
    assume bad: "(parse_integer_required hs request ''before_ts'' = Inr before_ts
              \<and> before_ts < 30000000000)
            \<or> (parse_integer hs request ''size_gt'' 0 = Inr size_gt \<and> size_gt < 0)"
    show "\<exists>e. kind e = InvalidParameter
                 \<and> (\<forall>d. DeleteMediaByDateSize_on_POST (hs\<lparr>delete_old_local_media := d\<rparr>)
                            request server_name s
                          = (Inl e, s))"
    proof (cases "parse_integer_required hs request ''before_ts''")
      case (Inl e)
      with parse_kinds(1) show ?thesis
        by (intro exI [where x = e]) (simp add: handler_defs action_defs pre)
    next
      case b: (Inr b)
      show ?thesis
      proof (cases "parse_integer hs request ''size_gt'' 0")
        case (Inl e)
        with b parse_kinds(2) show ?thesis
          by (intro exI [where x = e]) (simp add: handler_defs action_defs pre)
      next
        case g: (Inr g)
        show ?thesis
        proof (cases "parse_boolean request ''keep_profiles'' True")
          case (Inl e)
          with b g parse_kinds(3) show ?thesis
            by (intro exI [where x = e]) (simp add: handler_defs action_defs pre)
        next
          case k: (Inr k)
          from bad b g have "b < 30000000000 \<or> g < 0" by auto
          then show ?thesis
            using b g k
            by (cases "b < 0"; cases "b < 30000000000")
               (auto simp add: handler_defs action_defs pre)
        qed
      qed
    qed
  qed
  from purge exact general show ?thesis
    by simp
qed

text \<open>The administrator alice sends \<^verbatim>\<open>before_ts=1000\<close> to the cache purge.\<close>

theorem purge_rejects_bad_parameters_witness:
  "parse_integer_required server (ask ''alice_token'' [(''before_ts'', ''1000'')]) ''before_ts''
     = Inr 1000
   \<and> (1000 :: int) < 30000000000
   \<and> (\<exists>msg. PurgeMediaCacheRestServlet_on_POST server
               (ask ''alice_token'' [(''before_ts'', ''1000'')]) world
             = (Inl (SynapseError 400 msg (Some INVALID_PARAM)), world))"
proof -
  have h: "parse_integer_required server (ask ''alice_token'' [(''before_ts'', ''1000'')])
             ''before_ts'' = Inr 1000"
    by (simp add: example_defs parse_integer_required_def)
  have admin: "get_user_by_req server (ask ''alice_token'' [(''before_ts'', ''1000'')]) world
                 = Inr alice"
    by (rule alice_is_admin)
  from purge_rejects_bad_parameters [OF admin alice_is_admin(2), where before_ts = 1000 and size_gt = 0
         and keep_profiles = True and server_name = "''hs''"] h
  obtain msg where
    "\<forall>d. PurgeMediaCacheRestServlet_on_POST (server\<lparr>delete_old_remote_media := d\<rparr>)
            (ask ''alice_token'' [(''before_ts'', ''1000'')]) world
          = (Inl (SynapseError 400 msg (Some INVALID_PARAM)), world)"
    by auto
  from this [rule_format, where d = "delete_old_remote_media server"] h show ?thesis
    by auto
qed

subsection \<open>The user-media endpoint\<close>

text \<open>
  Claim C10. For a user-media request of an administrator, GET or DELETE alike, the
  checks run in the order of the source and each failure leaves the state as it was:
  a \<^verbatim>\<open>user_id\<close> that is not of this server is rejected with a 400; a local user
  the store does not know fails with \<^verbatim>\<open>NotFoundError\<close>; for a known local user a
  negative \<^verbatim>\<open>from\<close> or \<^verbatim>\<open>limit\<close> fails with an error of kind InvalidParameter
  (the handler's own 400 carrying \<^verbatim>\<open>Codes.INVALID_PARAM\<close> where both parameters
  parse). The outcome does not depend on what the listing and the deletion would do, so
  neither has run.
\<close>

theorem user_media_checks_come_first:
  assumes admin: "get_user_by_req hs request s = Inr u" "is_server_admin hs u s = Inr True"
      and uid: "UserID_from_string hs user_id = Inr uid"
  shows "(\<not> is_mine hs uid \<longrightarrow>
            (\<forall>p d. UserMediaRestServlet_on_GET
                      (hs\<lparr>get_local_media_by_user_paginate := p, delete_local_media_ids := d\<rparr>)
                      request user_id s
                    = (Inl (SynapseError 400 ''Can only look up local users'' None), s)
                  \<and> UserMediaRestServlet_on_DELETE
                      (hs\<lparr>get_local_media_by_user_paginate := p, delete_local_media_ids := d\<rparr>)
                      request user_id s
                    = (Inl (SynapseError 400 ''Can only look up local users'' None), s)))
       \<and> (is_mine hs uid \<and> get_user_by_id hs user_id s = Inr None \<longrightarrow>
            (\<forall>p d. UserMediaRestServlet_on_GET
                      (hs\<lparr>get_local_media_by_user_paginate := p, delete_local_media_ids := d\<rparr>)
                      request user_id s
                    = (Inl (NotFoundError ''Unknown user''), s)
                  \<and> UserMediaRestServlet_on_DELETE
                      (hs\<lparr>get_local_media_by_user_paginate := p, delete_local_media_ids := d\<rparr>)
                      request user_id s
                    = (Inl (NotFoundError ''Unknown user''), s)))
       \<and> (is_mine hs uid \<and> get_user_by_id hs user_id s = Inr (Some found)
            \<and> parse_integer hs request ''from'' 0 = Inr start
            \<and> parse_integer hs request ''limit'' 100 = Inr limit
            \<and> (start < 0 \<or> limit < 0) \<longrightarrow>
            (\<exists>msg. \<forall>p d. UserMediaRestServlet_on_GET
                      (hs\<lparr>get_local_media_by_user_paginate := p, delete_local_media_ids := d\<rparr>)
                      request user_id s
                    = (Inl (SynapseError 400 msg (Some INVALID_PARAM)), s)
                  \<and> UserMediaRestServlet_on_DELETE
                      (hs\<lparr>get_local_media_by_user_paginate := p, delete_local_media_ids := d\<rparr>)
                      request user_id s
                    = (Inl (SynapseError 400 msg (Some INVALID_PARAM)), s)))
       \<and> (is_mine hs uid \<and> get_user_by_id hs user_id s = Inr (Some found)
            \<and> ((parse_integer hs request ''from'' 0 = Inr start \<and> start < 0)
                 \<or> (parse_integer hs request ''limit'' 100 = Inr limit \<and> limit < 0)) \<longrightarrow>
            (\<exists>e. kind e = InvalidParameter
                 \<and> (\<forall>p d. UserMediaRestServlet_on_GET
                      (hs\<lparr>get_local_media_by_user_paginate := p, delete_local_media_ids := d\<rparr>)
                      request user_id s
                    = (Inl e, s)
                  \<and> UserMediaRestServlet_on_DELETE
                      (hs\<lparr>get_local_media_by_user_paginate := p, delete_local_media_ids := d\<rparr>)
                      request user_id s
                    = (Inl e, s))))
       \<and> kind (NotFoundError ''Unknown user'') = NotFound
       \<and> (\<forall>msg c. kind (SynapseError 400 msg c) = InvalidParameter)"
proof -
  have pre: "\<And>h. get_user_by_req h = get_user_by_req hs \<Longrightarrow> is_server_admin h = is_server_admin hs
               \<Longrightarrow> assert_requester_is_admin h request s = (Inr (), s)"
    using admin by (simp add: assert_requester_is_admin_apply assert_user_is_admin_apply)
  have parse_kinds:
    "\<And>e n d. parse_integer hs request n d = Inl e \<Longrightarrow> kind e = InvalidParameter"
    by (auto simp add: parse_integer_def split: option.splits)
  have first: "(\<not> is_mine hs uid \<longrightarrow>
            (\<forall>p d. UserMediaRestServlet_on_GET
                      (hs\<lparr>get_local_media_by_user_paginate := p, delete_local_media_ids := d\<rparr>)
                      request user_id s
                    = (Inl (SynapseError 400 ''Can only look up local users'' None), s)
                  \<and> UserMediaRestServlet_on_DELETE
                      (hs\<lparr>get_local_media_by_user_paginate := p, delete_local_media_ids := d\<rparr>)
                      request user_id s
                    = (Inl (SynapseError 400 ''Can only look up local users'' None), s)))
       \<and> (is_mine hs uid \<and> get_user_by_id hs user_id s = Inr None \<longrightarrow>
            (\<forall>p d. UserMediaRestServlet_on_GET
                      (hs\<lparr>get_local_media_by_user_paginate := p, delete_local_media_ids := d\<rparr>)
                      request user_id s
                    = (Inl (NotFoundError ''Unknown user''), s)
                  \<and> UserMediaRestServlet_on_DELETE
                      (hs\<lparr>get_local_media_by_user_paginate := p, delete_local_media_ids := d\<rparr>)
                      request user_id s
                    = (Inl (NotFoundError ''Unknown user''), s)))"
    using uid by (auto simp add: handler_defs action_defs pre)
  have exact: "is_mine hs uid \<and> get_user_by_id hs user_id s = Inr (Some found)
            \<and> parse_integer hs request ''from'' 0 = Inr start
            \<and> parse_integer hs request ''limit'' 100 = Inr limit
            \<and> (start < 0 \<or> limit < 0) \<longrightarrow>
            (\<exists>msg. \<forall>p d. UserMediaRestServlet_on_GET
                      (hs\<lparr>get_local_media_by_user_paginate := p, delete_local_media_ids := d\<rparr>)
                      request user_id s
                    = (Inl (SynapseError 400 msg (Some INVALID_PARAM)), s)
                  \<and> UserMediaRestServlet_on_DELETE
                      (hs\<lparr>get_local_media_by_user_paginate := p, delete_local_media_ids := d\<rparr>)
                      request user_id s
                    = (Inl (SynapseError 400 msg (Some INVALID_PARAM)), s))"
    using uid by (cases "start < 0") (auto simp add: handler_defs action_defs pre)
  have general: "is_mine hs uid \<and> get_user_by_id hs user_id s = Inr (Some found)
            \<and> ((parse_integer hs request ''from'' 0 = Inr start \<and> start < 0)
                 \<or> (parse_integer hs request ''limit'' 100 = Inr limit \<and> limit < 0)) \<longrightarrow>
            (\<exists>e. kind e = InvalidParameter
                 \<and> (\<forall>p d. UserMediaRestServlet_on_GET
                      (hs\<lparr>get_local_media_by_user_paginate := p, delete_local_media_ids := d\<rparr>)
                      request user_id s
                    = (Inl e, s)
                  \<and> UserMediaRestServlet_on_DELETE
                      (hs\<lparr>get_local_media_by_user_paginate := p, delete_local_media_ids := d\<rparr>)
                      request user_id s
                    = (Inl e, s)))"
  proof (intro impI, elim conjE)
    assume mine: "is_mine hs uid" and known: "get_user_by_id hs user_id s = Inr (Some found)"
      and bad: "(parse_integer hs request ''from'' 0 = Inr start \<and> start < 0)
                 \<or> (parse_integer hs request ''limit'' 100 = Inr limit \<and> limit < 0)"
    show "\<exists>e. kind e = InvalidParameter
                 \<and> (\<forall>p d. UserMediaRestServlet_on_GET
                      (hs\<lparr>get_local_media_by_user_paginate := p, delete_local_media_ids := d\<rparr>)
                      request user_id s
                    = (Inl e, s)
                  \<and> UserMediaRestServlet_on_DELETE
                      (hs\<lparr>get_local_media_by_user_paginate := p, delete_local_media_ids := d\<rparr>)
                      request user_id s
                    = (Inl e, s))"
    proof (cases "parse_integer hs request ''from'' 0")
      case (Inl e)
      with parse_kinds uid mine known show ?thesis
        by (intro exI [where x = e]) (simp add: handler_defs action_defs pre)
    next
      case f: (Inr f)
      show ?thesis
      proof (cases "parse_integer hs request ''limit'' 100")
        case (Inl e)
        with f parse_kinds uid mine known show ?thesis
          by (intro exI [where x = e]) (simp add: handler_defs action_defs pre)
      next
        case l: (Inr l)
        from bad f l have "f < 0 \<or> l < 0" by auto
        then show ?thesis
          using f l uid mine known
          by (cases "f < 0") (auto simp add: handler_defs action_defs pre)
      qed
    qed
  qed
  from first exact general show ?thesis
    by simp
qed

text \<open>The administrator alice asks to delete bob's media with \<^verbatim>\<open>from=-1\<close>.\<close>

theorem user_media_checks_come_first_witness:
  "UserID_from_string server ''@bob:hs'' = Inr bob
   \<and> is_mine server bob
   \<and> get_user_by_id server ''@bob:hs'' world = Inr (Some ''@bob:hs'')
   \<and> parse_integer server (ask ''alice_token'' [(''from'', ''-1'')]) ''from'' 0 = Inr (- 1)
   \<and> parse_integer server (ask ''alice_token'' [(''from'', ''-1'')]) ''limit'' 100 = Inr 100
   \<and> (\<exists>msg. UserMediaRestServlet_on_DELETE server (ask ''alice_token'' [(''from'', ''-1'')])
                ''@bob:hs'' world
              = (Inl (SynapseError 400 msg (Some INVALID_PARAM)), world))"
proof -
  have uid: "UserID_from_string server ''@bob:hs'' = Inr bob"
    by (simp add: example_defs from_string_def)
  have rest: "is_mine server bob"
    "get_user_by_id server ''@bob:hs'' world = Inr (Some ''@bob:hs'')"
    "parse_integer server (ask ''alice_token'' [(''from'', ''-1'')]) ''from'' 0 = Inr (- 1)"
    "parse_integer server (ask ''alice_token'' [(''from'', ''-1'')]) ''limit'' 100 = Inr 100"
    by (simp_all add: example_defs parse_integer_def)
  have admin: "get_user_by_req server (ask ''alice_token'' [(''from'', ''-1'')]) world = Inr alice"
    by (rule alice_is_admin)
  from user_media_checks_come_first [OF admin alice_is_admin(2) uid,
         where found = "''@bob:hs''" and start = "- 1" and limit = 100] rest
  obtain msg where
    "\<forall>p d. UserMediaRestServlet_on_DELETE
              (server\<lparr>get_local_media_by_user_paginate := p, delete_local_media_ids := d\<rparr>)
              (ask ''alice_token'' [(''from'', ''-1'')]) ''@bob:hs'' world
            = (Inl (SynapseError 400 msg (Some INVALID_PARAM)), world)"
    by auto
  from this [rule_format, where p = "get_local_media_by_user_paginate server"
                and d = "delete_local_media_ids server"]
    uid rest
  show ?thesis
    by auto
qed

text \<open>
  Claim C4. Every successful GET of a user's media was made with an offset \<open>start\<close>
  (the parameter \<^verbatim>\<open>from\<close>) and a page size \<open>limit\<close>, returns the rows \<open>media\<close> and
  the total count \<open>n\<close> the store gave for them, and carries the key \<^verbatim>\<open>next_token\<close> if
  and only if \<open>start + limit < n\<close>; when present, \<^verbatim>\<open>next_token\<close> is
  \<open>start + len(media)\<close>.
\<close>

theorem next_token_iff_more_rows:
  assumes "UserMediaRestServlet_on_GET hs request user_id s = (Inr (status, body), s')"
  shows "\<exists>start limit order_by direction media n next_token.
            parse_integer hs request ''from'' 0 = Inr start
          \<and> parse_integer hs request ''limit'' 100 = Inr limit
          \<and> sort_order request = Inr (order_by, direction)
          \<and> get_local_media_by_user_paginate hs start limit user_id order_by direction s
              = Inr (media, n)
          \<and> status = 200 \<and> s' = s
          \<and> body = UserMedia media n next_token
          \<and> (next_token \<noteq> None \<longleftrightarrow> start + limit < n)
          \<and> (next_token \<noteq> None \<longrightarrow> next_token = Some (start + int (length media)))"
  using assms
  by (auto simp add: handler_defs action_defs split: sum.splits prod.splits if_splits
           dest!: assert_requester_is_admin_state; blast)

text \<open>Bob has two media; alice lists them with \<^verbatim>\<open>limit=1\<close>.\<close>

theorem next_token_iff_more_rows_witness:
  "UserMediaRestServlet_on_GET server (ask ''alice_token'' [(''limit'', ''1'')]) ''@bob:hs'' world
     = (Inr (200, UserMedia [medium ''hs'' ''B'' ''@bob:hs'' 1577836800002 True] 2 (Some 1)), world)
   \<and> parse_integer server (ask ''alice_token'' [(''limit'', ''1'')]) ''from'' 0 = Inr 0
   \<and> parse_integer server (ask ''alice_token'' [(''limit'', ''1'')]) ''limit'' 100 = Inr 1"
proof -
  have h: "UserMediaRestServlet_on_GET server (ask ''alice_token'' [(''limit'', ''1'')])
             ''@bob:hs'' world
           = (Inr (200, UserMedia [medium ''hs'' ''B'' ''@bob:hs'' 1577836800002 True] 2 (Some 1)),
              world)"
    by (simp add: example_defs handler_defs action_defs assert_requester_is_admin_def
          assert_user_is_admin_def parse_integer_def from_string_def sort_order_def
          listByUser_def user_rows_def row_before_def)
  have "parse_integer server (ask ''alice_token'' [(''limit'', ''1'')]) ''limit'' 100 = Inr 1"
    by (simp add: example_defs parse_integer_def)
  with next_token_iff_more_rows [OF h] h show ?thesis
    by auto
qed

lemma user_media_page_runs:
  assumes "get_user_by_req hs request s = Inr u" "is_server_admin hs u s = Inr True"
      and "UserID_from_string hs user_id = Inr uid" "is_mine hs uid"
      and "get_user_by_id hs user_id s = Inr (Some found)"
      and "parse_integer hs request ''from'' 0 = Inr start" "0 \<le> start"
      and "parse_integer hs request ''limit'' 100 = Inr limit" "0 \<le> limit"
      and "sort_order request = Inr (order_by, direction)"
  shows "user_media_page hs request user_id s =
           (case get_local_media_by_user_paginate hs start limit user_id order_by direction s of
              Inl e \<Rightarrow> (Inl e, s)
            | Inr (media, n) \<Rightarrow> (Inr (start, limit, media, n), s))"
  using assms
  by (simp add: user_media_page_def action_defs admin_accepted split: sum.splits prod.splits)

text \<open>
  Claim C5. The sort of a user-media request, GET or DELETE. With neither
  \<^verbatim>\<open>order_by\<close> nor \<^verbatim>\<open>dir\<close> supplied it is \<^verbatim>\<open>created_ts\<close> backward; with only a valid
  \<^verbatim>\<open>order_by\<close> supplied the direction defaults to forward; with only a valid
  \<^verbatim>\<open>dir\<close> supplied the key defaults to \<^verbatim>\<open>created_ts\<close>. So the request without
  parameters and the request with the explicit default key differ in direction. Both
  handlers, once their checks have passed, hand exactly this sort to the listing.
\<close>

theorem default_sort_is_asymmetric:
  "(args request ''order_by'' = None \<and> args request ''dir'' = None \<longrightarrow>
      sort_order request = Inr (''created_ts'', ''b''))
   \<and> (args request ''order_by'' = Some ob
        \<and> ob \<in> {''media_id'', ''upload_name'', ''created_ts'', ''last_access_ts'',
                 ''media_length'', ''media_type'', ''quarantined_by'', ''safe_from_quarantine''}
        \<and> args request ''dir'' = None \<longrightarrow>
      sort_order request = Inr (ob, ''f''))
   \<and> (args request ''order_by'' = None \<and> args request ''dir'' = Some d \<and> d \<in> {''f'', ''b''} \<longrightarrow>
      sort_order request = Inr (''created_ts'', d))
   \<and> (get_user_by_req hs request s = Inr u \<and> is_server_admin hs u s = Inr True
        \<and> UserID_from_string hs user_id = Inr uid \<and> is_mine hs uid
        \<and> get_user_by_id hs user_id s = Inr (Some found)
        \<and> parse_integer hs request ''from'' 0 = Inr start \<and> 0 \<le> start
        \<and> parse_integer hs request ''limit'' 100 = Inr limit \<and> 0 \<le> limit
        \<and> sort_order request = Inr (order_by, direction) \<longrightarrow>
      UserMediaRestServlet_on_GET hs request user_id s =
        (case get_local_media_by_user_paginate hs start limit user_id order_by direction s of
           Inl e \<Rightarrow> (Inl e, s)
         | Inr (media, n) \<Rightarrow>
             (Inr (200, if start + limit < n
                        then UserMedia media n (Some (start + int (length media)))
                        else UserMedia media n None), s))
      \<and> UserMediaRestServlet_on_DELETE hs request user_id s =
        (case get_local_media_by_user_paginate hs start limit user_id order_by direction s of
           Inl e \<Rightarrow> (Inl e, s)
         | Inr (media, n) \<Rightarrow>
             (case delete_local_media_ids hs (map rec_media_id media) s of
                (Inl e, s') \<Rightarrow> (Inl e, s')
              | (Inr (deleted_media, k), s') \<Rightarrow> (Inr (200, DeletedMedia deleted_media k), s'))))"
proof -
  have a: "args request ''order_by'' = None \<and> args request ''dir'' = None \<longrightarrow>
      sort_order request = Inr (''created_ts'', ''b'')"
    by (simp add: sort_order_def)
  have b: "args request ''order_by'' = Some ob
        \<and> ob \<in> {''media_id'', ''upload_name'', ''created_ts'', ''last_access_ts'',
                 ''media_length'', ''media_type'', ''quarantined_by'', ''safe_from_quarantine''}
        \<and> args request ''dir'' = None \<longrightarrow>
      sort_order request = Inr (ob, ''f'')"
    by (auto simp add: sort_order_def parse_string_def)
  have c: "args request ''order_by'' = None \<and> args request ''dir'' = Some d \<and> d \<in> {''f'', ''b''} \<longrightarrow>
      sort_order request = Inr (''created_ts'', d)"
    by (auto simp add: sort_order_def parse_string_def)
  have d: "get_user_by_req hs request s = Inr u \<and> is_server_admin hs u s = Inr True
        \<and> UserID_from_string hs user_id = Inr uid \<and> is_mine hs uid
        \<and> get_user_by_id hs user_id s = Inr (Some found)
        \<and> parse_integer hs request ''from'' 0 = Inr start \<and> 0 \<le> start
        \<and> parse_integer hs request ''limit'' 100 = Inr limit \<and> 0 \<le> limit
        \<and> sort_order request = Inr (order_by, direction) \<longrightarrow>
      UserMediaRestServlet_on_GET hs request user_id s =
        (case get_local_media_by_user_paginate hs start limit user_id order_by direction s of
           Inl e \<Rightarrow> (Inl e, s)
         | Inr (media, n) \<Rightarrow>
             (Inr (200, if start + limit < n
                        then UserMedia media n (Some (start + int (length media)))
                        else UserMedia media n None), s))
      \<and> UserMediaRestServlet_on_DELETE hs request user_id s =
        (case get_local_media_by_user_paginate hs start limit user_id order_by direction s of
           Inl e \<Rightarrow> (Inl e, s)
         | Inr (media, n) \<Rightarrow>
             (case delete_local_media_ids hs (map rec_media_id media) s of
                (Inl e, s') \<Rightarrow> (Inl e, s')
              | (Inr (deleted_media, k), s') \<Rightarrow> (Inr (200, DeletedMedia deleted_media k), s')))"
    by (auto simp add: UserMediaRestServlet_on_GET_def UserMediaRestServlet_on_DELETE_def
          await_def return_def user_media_page_runs split: sum.splits prod.splits)
  from a b c d show ?thesis by blast
qed

lemmas eval_defs = example_defs handler_defs action_defs assert_requester_is_admin_def
          assert_user_is_admin_def parse_integer_def from_string_def sort_order_def
          listByUser_def user_rows_def row_before_def parse_string_def

text \<open>
  Bob's media \<^verbatim>\<open>A\<close> (older) and \<^verbatim>\<open>B\<close> (newer), listed without parameters and with
  \<^verbatim>\<open>order_by=created_ts\<close>.
\<close>

theorem default_sort_is_asymmetric_witness:
  "sort_order (ask ''alice_token'' []) = Inr (''created_ts'', ''b'')
   \<and> sort_order (ask ''alice_token'' [(''order_by'', ''created_ts'')]) = Inr (''created_ts'', ''f'')
   \<and> sort_order (ask ''alice_token'' [(''dir'', ''b'')]) = Inr (''created_ts'', ''b'')
   \<and> UserMediaRestServlet_on_GET server (ask ''alice_token'' []) ''@bob:hs'' world
       = (Inr (200, UserMedia [medium ''hs'' ''B'' ''@bob:hs'' 1577836800002 True,
                               medium ''hs'' ''A'' ''@bob:hs'' 1577836800001 False] 2 None), world)
   \<and> UserMediaRestServlet_on_GET server (ask ''alice_token'' [(''order_by'', ''created_ts'')])
         ''@bob:hs'' world
       = (Inr (200, UserMedia [medium ''hs'' ''A'' ''@bob:hs'' 1577836800001 False,
                               medium ''hs'' ''B'' ''@bob:hs'' 1577836800002 True] 2 None), world)"
proof -
  have 1: "sort_order (ask ''alice_token'' []) = Inr (''created_ts'', ''b'')"
    using default_sort_is_asymmetric [where request = "ask ''alice_token'' []", THEN conjunct1]
    by (simp add: ask_def)
  have 2: "sort_order (ask ''alice_token'' [(''order_by'', ''created_ts'')])
             = Inr (''created_ts'', ''f'')"
    using default_sort_is_asymmetric [where request = "ask ''alice_token'' [(''order_by'', ''created_ts'')]"
                and ob = "''created_ts''", THEN conjunct2, THEN conjunct1]
    by (simp add: ask_def)
  have 3: "sort_order (ask ''alice_token'' [(''dir'', ''b'')]) = Inr (''created_ts'', ''b'')"
    using default_sort_is_asymmetric [where request = "ask ''alice_token'' [(''dir'', ''b'')]" and d = "''b''",
                THEN conjunct2, THEN conjunct2, THEN conjunct1]
    by (simp add: ask_def)
  have 4: "UserMediaRestServlet_on_GET server (ask ''alice_token'' []) ''@bob:hs'' world
       = (Inr (200, UserMedia [medium ''hs'' ''B'' ''@bob:hs'' 1577836800002 True,
                               medium ''hs'' ''A'' ''@bob:hs'' 1577836800001 False] 2 None), world)"
    by (simp add: eval_defs)
  have 5: "UserMediaRestServlet_on_GET server (ask ''alice_token'' [(''order_by'', ''created_ts'')])
         ''@bob:hs'' world
       = (Inr (200, UserMedia [medium ''hs'' ''A'' ''@bob:hs'' 1577836800001 False,
                               medium ''hs'' ''B'' ''@bob:hs'' 1577836800002 True] 2 None), world)"
    by (simp add: eval_defs)
  from 1 2 3 4 5 show ?thesis by simp
qed


subsection \<open>The engine keeps the invariant\<close>

lemma preserves_await:
  "preserves P m \<Longrightarrow> (\<And>a. preserves P (f a)) \<Longrightarrow> preserves P (await m f)"
  unfolding preserves_def await_def
  by (auto split: prod.splits sum.splits)

lemma preserves_basic:
  "preserves P (return a)" "preserves P (raise e)" "preserves P (query g)" "preserves P (parsed r)"
  by (simp_all add: preserves_def action_defs)

lemma preserves_if:
  "(b \<Longrightarrow> preserves P m) \<Longrightarrow> (\<not> b \<Longrightarrow> preserves P n) \<Longrightarrow> preserves P (if b then m else n)"
  by simp

lemma preserves_case_prod:
  "(\<And>a b. preserves P (f a b)) \<Longrightarrow> preserves P (case_prod f x)"
  by (cases x) simp

lemma preserves_asserts:
  "preserves P (assert_user_is_admin hs u)" "preserves P (assert_requester_is_admin hs request)"
  by (simp_all add: assert_user_is_admin_def assert_requester_is_admin_def
        preserves_await preserves_basic)

lemmas preserves_intros =
  preserves_await preserves_basic preserves_if preserves_case_prod preserves_asserts

lemma preserves_user_media_page: "preserves P (user_media_page hs request user_id)"
  unfolding user_media_page_def
  by (intro preserves_intros)

lemma snd_setQuarantine:
  "snd (setQuarantine keys by rs)
     = map (\<lambda>r. if key_of r \<in> set keys then quarantine_record by r else r) rs"
  by (induction rs) (simp_all add: Let_def split_beta)

lemma fst_setQuarantine:
  "fst (setQuarantine keys by rs)
     = length (filter (\<lambda>(r, r'). quarantined_by r \<noteq> quarantined_by r')
                 (zip rs (snd (setQuarantine keys by rs))))"
  by (induction rs) (simp_all add: Let_def split_beta)

lemma safe_means_clear_quarantine_record:
  "safe_means_clear r \<Longrightarrow> safe_means_clear (quarantine_record by r)"
  by (auto simp add: safe_means_clear_def quarantine_record_def)

lemma safe_means_clear_safe_record: "safe_means_clear r \<Longrightarrow> safe_means_clear (safe_record safe r)"
  by (auto simp add: safe_means_clear_def safe_record_def)

lemma invariant_apply_quarantine: "preserves quarantine_invariant (apply_quarantine keys by)"
  by (auto simp add: preserves_def apply_quarantine_def quarantine_invariant_def list_all_iff
        snd_setQuarantine safe_means_clear_quarantine_record split: prod.splits
        dest!: arg_cong [where f = snd])

lemma invariant_quarantineRoom: "preserves quarantine_invariant (quarantineRoom host room_id actor)"
  unfolding quarantineRoom_def
  by (intro preserves_intros invariant_apply_quarantine)

lemma invariant_quarantineUser: "preserves quarantine_invariant (quarantineUser host user_id actor)"
  using invariant_apply_quarantine
  by (simp add: preserves_def quarantineUser_def)

lemma invariant_quarantineById:
  "preserves quarantine_invariant (quarantineById server_name media_id by)"
  using invariant_apply_quarantine
  by (simp add: preserves_def quarantineById_def)

lemma invariant_protect: "preserves quarantine_invariant (protect host media_id safe)"
  by (auto simp add: preserves_def protect_def quarantine_invariant_def list_all_iff setSafe_def
        safe_means_clear_safe_record)

lemma delete_candidates_records:
  "delete_candidates ks s = (deleted, s') \<Longrightarrow>
     \<exists>dk. deleted = map snd dk \<and> set dk \<subseteq> set ks
          \<and> s' = s\<lparr>records := filter (\<lambda>r. key_of r \<notin> set dk) (records s)\<rparr>"
proof (induction ks arbitrary: s deleted s')
  case Nil
  then show ?case by auto
next
  case (Cons k ks)
  show ?case
  proof (cases "k \<in> set (adapter_err s) \<or> k \<notin> key_of ` set (records s)")
    case True
    with Cons.prems have "delete_candidates ks s = (deleted, s')" by simp
    from Cons.IH [OF this] show ?thesis by auto
  next
    case False
    obtain d t where dt: "delete_candidates ks (s\<lparr>records := filter (\<lambda>r. key_of r \<noteq> k) (records s)\<rparr>) = (d, t)"
      by (cases "delete_candidates ks (s\<lparr>records := filter (\<lambda>r. key_of r \<noteq> k) (records s)\<rparr>)")
    with False Cons.prems have eq: "deleted = snd k # d" "s' = t" by auto
    from Cons.IH [OF dt] obtain dk where dk: "d = map snd dk" "set dk \<subseteq> set ks"
      "t = s\<lparr>records := filter (\<lambda>r. key_of r \<noteq> k) (records s)\<rparr>
             \<lparr>records := filter (\<lambda>r. key_of r \<notin> set dk)
                 (records (s\<lparr>records := filter (\<lambda>r. key_of r \<noteq> k) (records s)\<rparr>))\<rparr>"
      by blast
    have "t = s\<lparr>records := filter (\<lambda>r. key_of r \<notin> set (k # dk)) (records s)\<rparr>"
      using dk(3) by (simp add: conj_commute)
    with eq dk show ?thesis
      by (intro exI [where x = "k # dk"]) auto
  qed
qed

lemma invariant_purge: "preserves quarantine_invariant (purge candidates)"
  by (auto simp add: preserves_def purge_def quarantine_invariant_def list_all_iff
        split: prod.splits dest!: delete_candidates_records)

lemma snd_purge_remote_cache:
  "snd (purge_remote_cache host before_ts s)
     = snd (purge (map key_of (filter (\<lambda>r. rec_server_name r \<noteq> host \<and> last_access_ts r < before_ts)
                                 (records s))) s)"
  by (simp add: purge_remote_cache_def split: prod.splits sum.splits)

lemma invariant_purges:
  "preserves quarantine_invariant (purge_remote_cache host before_ts)"
  "preserves quarantine_invariant (purge_local host before_ts size_gt keep_profiles)"
  "preserves quarantine_invariant (deleteByIds host media_ids)"
proof -
  have p: "\<And>c s. quarantine_invariant s \<Longrightarrow> quarantine_invariant (snd (purge c s))"
    using invariant_purge by (simp add: preserves_def)
  show "preserves quarantine_invariant (purge_remote_cache host before_ts)"
    unfolding preserves_def snd_purge_remote_cache by (simp add: p)
  show "preserves quarantine_invariant (purge_local host before_ts size_gt keep_profiles)"
    unfolding preserves_def purge_local_def by (simp add: p)
  show "preserves quarantine_invariant (deleteByIds host media_ids)"
    unfolding deleteByIds_def by (rule invariant_purge)
qed

lemma engine_preserves_invariant:
  "preserves quarantine_invariant (QuarantineMediaInRoom_on_POST (engine host io) request room_id)"
  "preserves quarantine_invariant (QuarantineMediaByUser_on_POST (engine host io) request user_id)"
  "preserves quarantine_invariant
     (QuarantineMediaByID_on_POST (engine host io) request server_name media_id)"
  "preserves quarantine_invariant
     (UnquarantineMediaByID_on_POST (engine host io) request server_name media_id)"
  "preserves quarantine_invariant (ProtectMediaByID_on_POST (engine host io) request media_id)"
  "preserves quarantine_invariant (UnprotectMediaByID_on_POST (engine host io) request media_id)"
  "preserves quarantine_invariant (ListMediaInRoom_on_GET (engine host io) request room_id)"
  "preserves quarantine_invariant (PurgeMediaCacheRestServlet_on_POST (engine host io) request)"
  "preserves quarantine_invariant
     (DeleteMediaByID_on_DELETE (engine host io) request server_name media_id)"
  "preserves quarantine_invariant
     (DeleteMediaByDateSize_on_POST (engine host io) request server_name)"
  "preserves quarantine_invariant (UserMediaRestServlet_on_GET (engine host io) request user_id)"
  "preserves quarantine_invariant (UserMediaRestServlet_on_DELETE (engine host io) request user_id)"
  unfolding QuarantineMediaInRoom_on_POST_def QuarantineMediaByUser_on_POST_def
    QuarantineMediaByID_on_POST_def UnquarantineMediaByID_on_POST_def
    ProtectMediaByID_on_POST_def UnprotectMediaByID_on_POST_def
    ListMediaInRoom_on_GET_def PurgeMediaCacheRestServlet_on_POST_def
    DeleteMediaByID_on_DELETE_def DeleteMediaByDateSize_on_POST_def
    UserMediaRestServlet_on_GET_def UserMediaRestServlet_on_DELETE_def
  by (intro preserves_intros preserves_user_media_page;
      simp add: engine_def invariant_quarantineRoom invariant_quarantineUser
        invariant_quarantineById invariant_protect invariant_purges)+



lemma key_of_safe_record [simp]: "key_of (safe_record safe r) = key_of r"
  by (simp add: key_of_def safe_record_def)

lemma key_of_quarantine_record [simp]: "key_of (quarantine_record by r) = key_of r"
  by (simp add: key_of_def quarantine_record_def)

lemma setSafe_protects:
  assumes "r \<in> set (setSafe host media_id True rs)" and "key_of r = (host, media_id)"
  shows "safe_from_quarantine r \<and> quarantined_by r = None"
proof -
  from assms(1) obtain r0 where r0: "r0 \<in> set rs"
    "r = (if key_of r0 = (host, media_id) then safe_record True r0 else r0)"
    unfolding setSafe_def by auto
  show ?thesis
  proof (cases "key_of r0 = (host, media_id)")
    case True
    with r0 show ?thesis by (simp add: safe_record_def)
  next
    case False
    with r0 assms(2) show ?thesis by simp
  qed
qed

lemma protect_by_admin:
  assumes "get_user_by_req (engine host io) request s = Inr u"
      and "is_server_admin (engine host io) u s = Inr True"
  shows "ProtectMediaByID_on_POST (engine host io) request media_id s
           = (Inr (200, EmptyDict), s\<lparr>records := setSafe host media_id True (records s)\<rparr>)"
proof -
  have "mark_local_media_as_safe (engine host io) media_id True s
          = (Inr (), s\<lparr>records := setSafe host media_id True (records s)\<rparr>)"
    by (simp add: engine_def protect_def)
  then show ?thesis
    using assms
    by (simp add: ProtectMediaByID_on_POST_def await_def query_def return_def admin_accepted)
qed

text \<open>
  Claim C1. On the engine, every operation keeps the invariant that a record with
  \<^verbatim>\<open>safe_from_quarantine = true\<close> has \<^verbatim>\<open>quarantined_by = null\<close>: quarantine by room,
  by user and by id, unquarantine, protect, unprotect and the deletions (and the two
  listings, which write nothing), whether the operation returns or raises. In
  particular protect, called by an administrator, marks the local record safe and clears
  its quarantine, whatever the flags were before.
\<close>

theorem safe_media_stay_unquarantined:
  assumes "quarantine_invariant s"
  shows "quarantine_invariant (snd (QuarantineMediaInRoom_on_POST (engine host io) request room_id s))
       \<and> quarantine_invariant (snd (QuarantineMediaByUser_on_POST (engine host io) request user_id s))
       \<and> quarantine_invariant
           (snd (QuarantineMediaByID_on_POST (engine host io) request server_name media_id s))
       \<and> quarantine_invariant
           (snd (UnquarantineMediaByID_on_POST (engine host io) request server_name media_id s))
       \<and> quarantine_invariant (snd (ProtectMediaByID_on_POST (engine host io) request media_id s))
       \<and> quarantine_invariant (snd (UnprotectMediaByID_on_POST (engine host io) request media_id s))
       \<and> quarantine_invariant (snd (ListMediaInRoom_on_GET (engine host io) request room_id s))
       \<and> quarantine_invariant (snd (PurgeMediaCacheRestServlet_on_POST (engine host io) request s))
       \<and> quarantine_invariant
           (snd (DeleteMediaByID_on_DELETE (engine host io) request server_name media_id s))
       \<and> quarantine_invariant
           (snd (DeleteMediaByDateSize_on_POST (engine host io) request server_name s))
       \<and> quarantine_invariant (snd (UserMediaRestServlet_on_GET (engine host io) request user_id s))
       \<and> quarantine_invariant
           (snd (UserMediaRestServlet_on_DELETE (engine host io) request user_id s))
       \<and> (get_user_by_req (engine host io) request s = Inr u
            \<and> is_server_admin (engine host io) u s = Inr True \<longrightarrow>
          ProtectMediaByID_on_POST (engine host io) request media_id s
            = (Inr (200, EmptyDict), s\<lparr>records := setSafe host media_id True (records s)\<rparr>)
          \<and> (\<forall>r \<in> set (setSafe host media_id True (records s)).
                key_of r = (host, media_id) \<longrightarrow>
                safe_from_quarantine r \<and> quarantined_by r = None))"
proof -
  have inv: "\<And>m. preserves quarantine_invariant m \<Longrightarrow> quarantine_invariant (snd (m s))"
    using assms by (simp add: preserves_def)
  have last: "get_user_by_req (engine host io) request s = Inr u
            \<and> is_server_admin (engine host io) u s = Inr True \<longrightarrow>
          ProtectMediaByID_on_POST (engine host io) request media_id s
            = (Inr (200, EmptyDict), s\<lparr>records := setSafe host media_id True (records s)\<rparr>)
          \<and> (\<forall>r \<in> set (setSafe host media_id True (records s)).
                key_of r = (host, media_id) \<longrightarrow>
                safe_from_quarantine r \<and> quarantined_by r = None)"
    using protect_by_admin setSafe_protects by blast
  show ?thesis
    by (intro conjI inv engine_preserves_invariant last)
qed

text \<open>
  Alice quarantines the room, then protects the now quarantined medium \<^verbatim>\<open>A\<close>.
\<close>

theorem safe_media_stay_unquarantined_witness:
  "quarantine_invariant world
   \<and> quarantine_invariant (snd (QuarantineMediaInRoom_on_POST server (ask ''alice_token'' [])
                                   ''!room:hs'' world))
   \<and> map quarantined_by
        (records (snd (QuarantineMediaInRoom_on_POST server (ask ''alice_token'' [])
                         ''!room:hs'' world)))
       = [Some ''@alice:hs'', None, Some ''@alice:hs'']
   \<and> map quarantined_by
        (records (snd (ProtectMediaByID_on_POST server (ask ''alice_token'' []) ''A''
                         (snd (QuarantineMediaInRoom_on_POST server (ask ''alice_token'' [])
                                 ''!room:hs'' world)))))
       = [None, None, Some ''@alice:hs'']"
proof -
  have h: "quarantine_invariant world"
    by (simp add: quarantine_invariant_def safe_means_clear_def world_def medium_def)
  have 1: "QuarantineMediaInRoom_on_POST server (ask ''alice_token'' []) ''!room:hs'' world
             = (Inr (200, NumQuarantined 2),
                world\<lparr>records := [(medium ''hs'' ''A'' ''@bob:hs'' 1577836800001 False)
                                      \<lparr>quarantined_by := Some ''@alice:hs''\<rparr>,
                                    medium ''hs'' ''B'' ''@bob:hs'' 1577836800002 True,
                                    (medium ''remote'' ''C'' ''@carol:remote'' 1577836800003 False)
                                      \<lparr>quarantined_by := Some ''@alice:hs''\<rparr>]\<rparr>)"
    by (simp add: eval_defs quarantineRoom_def resolve_def apply_quarantine_def key_of_def
          quarantine_record_def)
  have 2: "map quarantined_by
        (records (snd (ProtectMediaByID_on_POST server (ask ''alice_token'' []) ''A''
                         (snd (QuarantineMediaInRoom_on_POST server (ask ''alice_token'' [])
                                 ''!room:hs'' world)))))
       = [None, None, Some ''@alice:hs'']"
    unfolding 1
    by (simp add: eval_defs protect_def setSafe_def safe_record_def key_of_def)
  from safe_media_stay_unquarantined [OF h, where host = "''hs''" and io = int_of and request = "ask ''alice_token'' []"
              and room_id = "''!room:hs''", THEN conjunct1] h 1 2
  show ?thesis
    by (simp add: server_def medium_def)
qed

subsection \<open>Quarantine and its removal\<close>

lemma apply_quarantine_result:
  "apply_quarantine keys by s
     = (Inr (int (fst (setQuarantine keys by (records s)))),
        s\<lparr>records := snd (setQuarantine keys by (records s))\<rparr>)"
  by (simp add: apply_quarantine_def split_beta)

lemma quarantineRoom_result:
  assumes "quarantineRoom host room_id actor s = (Inr n, s')"
  shows "\<exists>keys. n = int (fst (setQuarantine keys (Some actor) (records s)))
             \<and> s' = s\<lparr>records := snd (setQuarantine keys (Some actor) (records s))\<rparr>"
  using assms
  by (auto simp add: quarantineRoom_def await_def query_def apply_quarantine_result
           split: sum.splits prod.splits)

lemma quarantine_room_run:
  assumes "QuarantineMediaInRoom_on_POST (engine host io) request room_id s
             = (Inr (status, body), s')"
  shows "\<exists>keys actor. status = 200
           \<and> body = NumQuarantined (int (fst (setQuarantine keys (Some actor) (records s))))
           \<and> s' = s\<lparr>records := snd (setQuarantine keys (Some actor) (records s))\<rparr>"
proof -
  from assms obtain u n where
    run: "quarantineRoom host room_id (user_string u) s = (Inr n, s')"
    and out: "status = 200" "body = NumQuarantined n"
    by (auto simp add: QuarantineMediaInRoom_on_POST_def await_def query_def return_def
          assert_user_is_admin_apply engine_def
          split: sum.splits prod.splits if_splits)
  from quarantineRoom_result [OF run] out show ?thesis
    by blast
qed

lemma safe_records_skipped:
  assumes "(r, r') \<in> set (zip rs (snd (setQuarantine keys (Some actor) rs)))"
      and "safe_from_quarantine r"
  shows "r' = r"
proof -
  from assms(1) have "r' = (if key_of r \<in> set keys then quarantine_record (Some actor) r else r)"
    unfolding snd_setQuarantine by (auto simp add: zip_map2 zip_same)
  with assms(2) show ?thesis
    by (simp add: quarantine_record_def)
qed

text \<open>
  Claim C6. On the engine, a successful quarantine-room call returns as
  \<^verbatim>\<open>num_quarantined\<close> the number of records whose \<^verbatim>\<open>quarantined_by\<close> differs between
  the state before and the state after, and every record with
  \<^verbatim>\<open>safe_from_quarantine = true\<close> is left exactly as it was (so it is neither changed nor
  counted). The example of the specification is the witness below.
\<close>

theorem quarantine_room_counts_changes:
  assumes "QuarantineMediaInRoom_on_POST (engine host io) request room_id s
             = (Inr (status, body), s')"
  shows "status = 200
       \<and> body = NumQuarantined
                  (int (length (filter (\<lambda>(r, r'). quarantined_by r \<noteq> quarantined_by r')
                                  (zip (records s) (records s')))))
       \<and> length (records s') = length (records s)
       \<and> (\<forall>(r, r') \<in> set (zip (records s) (records s')). safe_from_quarantine r \<longrightarrow> r' = r)"
proof -
  from quarantine_room_run [OF assms] obtain keys actor where
    st: "status = 200"
    and b: "body = NumQuarantined (int (fst (setQuarantine keys (Some actor) (records s))))"
    and s': "s' = s\<lparr>records := snd (setQuarantine keys (Some actor) (records s))\<rparr>"
    by blast
  have recs: "records s' = snd (setQuarantine keys (Some actor) (records s))"
    using s' by simp
  have len: "length (records s') = length (records s)"
    unfolding recs snd_setQuarantine by simp
  have skip: "\<forall>(r, r') \<in> set (zip (records s) (records s')). safe_from_quarantine r \<longrightarrow> r' = r"
    unfolding recs using safe_records_skipped by fastforce
  from st b len skip show ?thesis
    unfolding recs by (simp add: fst_setQuarantine [symmetric])
qed

text \<open>
  The room references the local media \<^verbatim>\<open>A\<close> and \<^verbatim>\<open>B\<close> (\<^verbatim>\<open>B\<close> marked safe) and the
  remote medium \<^verbatim>\<open>C\<close>: the count is 2 and \<^verbatim>\<open>B\<close> stays unquarantined.
\<close>

theorem quarantine_room_counts_changes_witness:
  "QuarantineMediaInRoom_on_POST server (ask ''alice_token'' []) ''!room:hs'' world
     = (Inr (200, NumQuarantined 2),
        world\<lparr>records := [(medium ''hs'' ''A'' ''@bob:hs'' 1577836800001 False)
                              \<lparr>quarantined_by := Some ''@alice:hs''\<rparr>,
                            medium ''hs'' ''B'' ''@bob:hs'' 1577836800002 True,
                            (medium ''remote'' ''C'' ''@carol:remote'' 1577836800003 False)
                              \<lparr>quarantined_by := Some ''@alice:hs''\<rparr>]\<rparr>)
   \<and> quarantined_by (medium ''hs'' ''B'' ''@bob:hs'' 1577836800002 True) = None
   \<and> length (records world) = 3"
proof -
  have 1: "QuarantineMediaInRoom_on_POST (engine ''hs'' int_of) (ask ''alice_token'' [])
             ''!room:hs'' world
             = (Inr (200, NumQuarantined 2),
                world\<lparr>records := [(medium ''hs'' ''A'' ''@bob:hs'' 1577836800001 False)
                                      \<lparr>quarantined_by := Some ''@alice:hs''\<rparr>,
                                    medium ''hs'' ''B'' ''@bob:hs'' 1577836800002 True,
                                    (medium ''remote'' ''C'' ''@carol:remote'' 1577836800003 False)
                                      \<lparr>quarantined_by := Some ''@alice:hs''\<rparr>]\<rparr>)"
    by (simp add: eval_defs quarantineRoom_def resolve_def apply_quarantine_def key_of_def
          quarantine_record_def)
  from quarantine_room_counts_changes [OF 1] 1 show ?thesis
    by (simp add: server_def medium_def)
qed

lemma setQuarantine_clear_twice:
  "snd (setQuarantine keys None (snd (setQuarantine keys None rs)))
     = snd (setQuarantine keys None rs)"
  by (simp add: snd_setQuarantine quarantine_record_def key_of_def)

lemma setQuarantine_clear_noop:
  assumes "\<forall>r \<in> set rs. key_of r \<in> set keys \<longrightarrow> quarantined_by r = None"
  shows "snd (setQuarantine keys None rs) = rs"
  unfolding snd_setQuarantine
  using assms by (intro map_idI) (simp add: quarantine_record_def)

lemma unquarantine_by_admin:
  assumes "get_user_by_req (engine host io) request s = Inr u"
      and "is_server_admin (engine host io) u s = Inr True"
  shows "UnquarantineMediaByID_on_POST (engine host io) request server_name media_id s
           = (Inr (200, EmptyDict),
              s\<lparr>records := snd (setQuarantine [(server_name, media_id)] None (records s))\<rparr>)"
proof -
  have "quarantine_media_by_id (engine host io) server_name media_id None s
          = (Inr (int (fst (setQuarantine [(server_name, media_id)] None (records s)))),
             s\<lparr>records := snd (setQuarantine [(server_name, media_id)] None (records s))\<rparr>)"
    by (simp add: engine_def quarantineById_def apply_quarantine_result)
  then show ?thesis
    using assms
    by (simp add: UnquarantineMediaByID_on_POST_def await_def query_def return_def admin_accepted)
qed

text \<open>
  Claim C7. On the engine, the unquarantine handler called by an administrator returns
  200 with the empty body and leaves exactly the state
  \<^verbatim>\<open>setQuarantine({(server_name, media_id)}, null)\<close> leaves; it never raises, also when
  no such record exists. Applying it a second time gives the same outcome and the same
  state as the first application; on a record that is already clear the state does not
  change at all.
\<close>

theorem unquarantine_is_idempotent:
  assumes "get_user_by_req (engine host io) request s = Inr u"
      and "is_server_admin (engine host io) u s = Inr True"
  shows "UnquarantineMediaByID_on_POST (engine host io) request server_name media_id s
           = (Inr (200, EmptyDict),
              s\<lparr>records := snd (setQuarantine [(server_name, media_id)] None (records s))\<rparr>)
       \<and> UnquarantineMediaByID_on_POST (engine host io) request server_name media_id
            (snd (UnquarantineMediaByID_on_POST (engine host io) request server_name media_id s))
           = UnquarantineMediaByID_on_POST (engine host io) request server_name media_id s
       \<and> ((\<forall>r \<in> set (records s). key_of r = (server_name, media_id) \<longrightarrow> quarantined_by r = None)
            \<longrightarrow> UnquarantineMediaByID_on_POST (engine host io) request server_name media_id s
                  = (Inr (200, EmptyDict), s))"
proof -
  let ?s1 = "s\<lparr>records := snd (setQuarantine [(server_name, media_id)] None (records s))\<rparr>"
  have 1: "UnquarantineMediaByID_on_POST (engine host io) request server_name media_id s
           = (Inr (200, EmptyDict), ?s1)"
    by (rule unquarantine_by_admin [OF assms])
  have a1: "get_user_by_req (engine host io) request ?s1 = Inr u"
    "is_server_admin (engine host io) u ?s1 = Inr True"
    using assms by (simp_all add: engine_def identify_def)
  have 2: "UnquarantineMediaByID_on_POST (engine host io) request server_name media_id ?s1
           = (Inr (200, EmptyDict), ?s1)"
    unfolding unquarantine_by_admin [OF a1]
    by (simp add: setQuarantine_clear_twice)
  have 3: "(\<forall>r \<in> set (records s). key_of r = (server_name, media_id) \<longrightarrow> quarantined_by r = None)
            \<longrightarrow> ?s1 = s"
    by (simp add: setQuarantine_clear_noop)
  from 1 2 3 show ?thesis
    by simp
qed


text \<open>Alice unquarantines the medium \<^verbatim>\<open>A\<close>, which is not quarantined.\<close>

theorem unquarantine_is_idempotent_witness:
  "get_user_by_req server (ask ''alice_token'' []) world = Inr alice
   \<and> is_server_admin server alice world = Inr True
   \<and> UnquarantineMediaByID_on_POST server (ask ''alice_token'' []) ''hs'' ''A'' world
       = (Inr (200, EmptyDict), world)"
proof -
  have a: "get_user_by_req (engine ''hs'' int_of) (ask ''alice_token'' []) world = Inr alice"
    "is_server_admin (engine ''hs'' int_of) alice world = Inr True"
    by (simp_all add: example_defs)
  have clear: "\<forall>r \<in> set (records world). key_of r = (''hs'', ''A'') \<longrightarrow> quarantined_by r = None"
    by (simp add: world_def medium_def key_of_def)
  from unquarantine_is_idempotent [OF a, where server_name = "''hs''" and media_id = "''A''"] clear
  have "UnquarantineMediaByID_on_POST (engine ''hs'' int_of) (ask ''alice_token'' []) ''hs'' ''A''
          world = (Inr (200, EmptyDict), world)"
    by blast
  with a show ?thesis
    by (simp add: server_def)
qed

subsection \<open>Deleting a page of user media\<close>

lemma set_insert_row: "set (insert_row le x xs) = insert x (set xs)"
  by (induction xs) auto

lemma set_sort_rows: "set (sort_rows le xs) = set xs"
  by (induction xs) (simp_all add: set_insert_row)

lemma length_insert_row: "length (insert_row le x xs) = Suc (length xs)"
  by (induction xs) auto

lemma length_sort_rows: "length (sort_rows le xs) = length xs"
  by (induction xs) (simp_all add: length_insert_row)

lemma listByUser_page:
  assumes "listByUser host offset limit user_id sortKey direction rs = Inr (page, n)"
  shows "length page \<le> nat limit" and "set page \<subseteq> set (user_rows host user_id rs)"
    and "n = int (length (user_rows host user_id rs))"
proof -
  from assms obtain k where
    page: "page = take (nat limit) (drop (nat offset)
                    (sort_rows (row_before k direction) (user_rows host user_id rs)))"
    and n: "n = int (length (sort_rows (row_before k direction) (user_rows host user_id rs)))"
    by (auto simp add: listByUser_def Let_def split: option.splits)
  show "length page \<le> nat limit"
    unfolding page by simp
  have "set page \<subseteq> set (sort_rows (row_before k direction) (user_rows host user_id rs))"
    unfolding page by (meson set_take_subset set_drop_subset subset_trans)
  then show "set page \<subseteq> set (user_rows host user_id rs)"
    by (simp add: set_sort_rows)
  show "n = int (length (user_rows host user_id rs))"
    unfolding n by (simp add: length_sort_rows)
qed

lemma deleteByIds_result:
  assumes "deleteByIds host ids s = (Inr (deleted, k), s')"
  shows "k = int (length ids)" and "set deleted \<subseteq> set ids"
    and "s' = s\<lparr>records := filter (\<lambda>r. key_of r \<notin> Pair host ` set deleted) (records s)\<rparr>"
proof -
  from assms have dc: "delete_candidates (map (Pair host) ids) s = (deleted, s')"
    and k: "k = int (length ids)"
    by (auto simp add: deleteByIds_def purge_def split: prod.splits)
  from delete_candidates_records [OF dc] obtain dk where
    dk: "deleted = map snd dk" "set dk \<subseteq> set (map (Pair host) ids)"
        "s' = s\<lparr>records := filter (\<lambda>r. key_of r \<notin> set dk) (records s)\<rparr>"
    by blast
  from dk(2) have fst_host: "\<And>x. x \<in> set dk \<Longrightarrow> fst x = host \<and> snd x \<in> set ids"
    by auto
  have "set dk = Pair host ` set deleted"
  proof
    show "set dk \<subseteq> Pair host ` set deleted"
    proof
      fix x assume x: "x \<in> set dk"
      have "x = (host, snd x)" using fst_host [OF x] by (metis prod.collapse)
      moreover have "snd x \<in> set deleted" using x dk(1) by simp
      ultimately show "x \<in> Pair host ` set deleted" by (metis imageI)
    qed
    show "Pair host ` set deleted \<subseteq> set dk"
    proof
      fix x assume "x \<in> Pair host ` set deleted"
      then obtain y where y: "y \<in> set dk" "x = (host, snd y)" using dk(1) by auto
      with fst_host [OF y(1)] show "x \<in> set dk" by (metis prod.collapse)
    qed
  qed
  with dk(3) show "s' = s\<lparr>records := filter (\<lambda>r. key_of r \<notin> Pair host ` set deleted) (records s)\<rparr>"
    by simp
  show "k = int (length ids)" by (rule k)
  show "set deleted \<subseteq> set ids" using dk(1) fst_host by auto
qed

lemma user_media_delete_run:
  assumes "UserMediaRestServlet_on_DELETE (engine host io) request user_id s
             = (Inr (status, body), s')"
  shows "\<exists>start limit order_by direction page n deleted k.
            parse_integer (engine host io) request ''from'' 0 = Inr start
          \<and> parse_integer (engine host io) request ''limit'' 100 = Inr limit
          \<and> 0 \<le> limit
          \<and> sort_order request = Inr (order_by, direction)
          \<and> listByUser host start limit user_id order_by direction (records s) = Inr (page, n)
          \<and> deleteByIds host (map rec_media_id page) s = (Inr (deleted, k), s')
          \<and> status = 200 \<and> body = DeletedMedia deleted k"
proof -
  have e: "get_local_media_by_user_paginate (engine host io)
             = (\<lambda>start limit user_id order_by direction s.
                  listByUser host start limit user_id order_by direction (records s))"
    "delete_local_media_ids (engine host io) = deleteByIds host"
    by (simp_all add: engine_def)
  from assms show ?thesis
    unfolding UserMediaRestServlet_on_DELETE_def user_media_page_def e
    by (auto simp add: action_defs split: sum.splits prod.splits if_splits
             dest!: assert_requester_is_admin_state; blast)
qed


lemma delete_candidates_length: "length (fst (delete_candidates ks s)) \<le> length ks"
proof (induction ks arbitrary: s)
  case Nil
  show ?case by simp
next
  case (Cons k ks)
  show ?case
    using Cons.IH [of s]
      Cons.IH [of "s\<lparr>records := filter (\<lambda>r. key_of r \<noteq> k) (records s)\<rparr>"]
    by (auto simp add: split_beta)
qed

lemma count_keys:
  assumes "distinct (map key_of xs)" and "finite K"
  shows "length (filter (\<lambda>r. key_of r \<in> K) xs) \<le> card K"
proof -
  have d: "distinct (map key_of (filter (\<lambda>r. key_of r \<in> K) xs))"
    using assms(1) by (rule distinct_map_filter)
  have "length (filter (\<lambda>r. key_of r \<in> K) xs)
          = card (set (map key_of (filter (\<lambda>r. key_of r \<in> K) xs)))"
    using distinct_card [OF d] by simp
  also have "\<dots> \<le> card K"
    using assms(2) by (intro card_mono) auto
  finally show ?thesis .
qed

lemma remaining_rows:
  assumes "distinct (map key_of rs)" and "length deleted_keys \<le> m"
  shows "int (length (user_rows host user_id rs)) - int m
           \<le> int (length (user_rows host user_id
                             (filter (\<lambda>r. key_of r \<notin> set deleted_keys) rs)))"
proof -
  let ?u = "user_rows host user_id rs"
  have comm: "user_rows host user_id (filter (\<lambda>r. key_of r \<notin> set deleted_keys) rs)
                = filter (\<lambda>r. key_of r \<notin> set deleted_keys) ?u"
    by (auto simp add: user_rows_def intro: filter_cong)
  have "distinct (map key_of ?u)"
    unfolding user_rows_def using assms(1) by (rule distinct_map_filter)
  then have "length (filter (\<lambda>r. key_of r \<in> set deleted_keys) ?u) \<le> card (set deleted_keys)"
    by (rule count_keys) simp
  also have "\<dots> \<le> length deleted_keys"
    by (rule card_length)
  finally have gone: "length (filter (\<lambda>r. key_of r \<in> set deleted_keys) ?u) \<le> m"
    using assms(2) by simp
  have "length ?u = length (filter (\<lambda>r. key_of r \<in> set deleted_keys) ?u)
                  + length (filter (\<lambda>r. key_of r \<notin> set deleted_keys) ?u)"
    using sum_length_filter_compl [of "\<lambda>r. key_of r \<in> set deleted_keys" ?u] by simp
  with gone show ?thesis
    unfolding comm by simp
qed

text \<open>
  Claim C9. On the engine, a successful DELETE of a user's media lists one page with the
  request's \<^verbatim>\<open>from\<close>, \<^verbatim>\<open>limit\<close> (100 when absent) and sort, of at most \<^verbatim>\<open>limit\<close>
  rows, and hands the media ids of that page, and nothing else, to the deletion: what is
  deleted is among the page's ids, every record that is not a row of the page is still
  in the store afterwards, and where the keys of the store are unique the user keeps at
  least all but \<^verbatim>\<open>limit\<close> of their media.
\<close>

theorem delete_user_media_takes_one_page:
  assumes "UserMediaRestServlet_on_DELETE (engine host io) request user_id s
             = (Inr (status, body), s')"
  shows "\<exists>start limit order_by direction page n deleted.
            parse_integer (engine host io) request ''from'' 0 = Inr start
          \<and> parse_integer (engine host io) request ''limit'' 100 = Inr limit
          \<and> sort_order request = Inr (order_by, direction)
          \<and> listByUser host start limit user_id order_by direction (records s) = Inr (page, n)
          \<and> length page \<le> nat limit
          \<and> status = 200
          \<and> body = DeletedMedia deleted (int (length page))
          \<and> set deleted \<subseteq> rec_media_id ` set page
          \<and> s' = s\<lparr>records := filter (\<lambda>r. key_of r \<notin> Pair host ` set deleted) (records s)\<rparr>
          \<and> (\<forall>r \<in> set (records s). key_of r \<notin> key_of ` set page \<longrightarrow> r \<in> set (records s'))
          \<and> (distinct (map key_of (records s)) \<longrightarrow>
                int (length (user_rows host user_id (records s))) - limit
                  \<le> int (length (user_rows host user_id (records s'))))"
proof -
  from user_media_delete_run [OF assms] obtain start limit order_by direction page n deleted k
    where from_ok: "parse_integer (engine host io) request ''from'' 0 = Inr start"
      and limit_ok: "parse_integer (engine host io) request ''limit'' 100 = Inr limit"
      and nonneg: "0 \<le> limit"
      and sort_ok: "sort_order request = Inr (order_by, direction)"
      and listed: "listByUser host start limit user_id order_by direction (records s)
                     = Inr (page, n)"
      and deleted: "deleteByIds host (map rec_media_id page) s = (Inr (deleted, k), s')"
      and out: "status = 200" "body = DeletedMedia deleted k"
    by blast
  note pg = listByUser_page [OF listed]
  note del = deleteByIds_result [OF deleted]
  have k: "k = int (length page)"
    using del(1) by simp
  have sub: "set deleted \<subseteq> rec_media_id ` set page"
    using del(2) by simp
  have page_keys: "\<And>r. r \<in> set page \<Longrightarrow> key_of r = (host, rec_media_id r)"
    using pg(2) by (auto simp add: user_rows_def key_of_def)
  have keys_sub: "Pair host ` set deleted \<subseteq> key_of ` set page"
  proof
    fix x assume "x \<in> Pair host ` set deleted"
    then obtain i where i: "i \<in> set deleted" "x = (host, i)" by auto
    with sub obtain r where r: "r \<in> set page" "i = rec_media_id r" by auto
    with i page_keys [OF r(1)] show "x \<in> key_of ` set page" by (metis imageI)
  qed
  have recs: "records s' = filter (\<lambda>r. key_of r \<notin> Pair host ` set deleted) (records s)"
    using del(3) by simp
  have untouched: "\<forall>r \<in> set (records s). key_of r \<notin> key_of ` set page \<longrightarrow> r \<in> set (records s')"
    unfolding recs using keys_sub by auto
  have remaining: "distinct (map key_of (records s)) \<longrightarrow>
                int (length (user_rows host user_id (records s))) - limit
                  \<le> int (length (user_rows host user_id (records s')))"
  proof
    assume d: "distinct (map key_of (records s))"
    have "length deleted \<le> length page"
      using delete_candidates_length [of "map (Pair host) (map rec_media_id page)" s] deleted
      by (auto simp add: deleteByIds_def purge_def split: prod.splits)
    with pg(1) have "length (map (Pair host) deleted) \<le> nat limit"
      by simp
    from remaining_rows [OF d this, of host user_id] nonneg show
      "int (length (user_rows host user_id (records s))) - limit
         \<le> int (length (user_rows host user_id (records s')))"
      unfolding recs by simp
  qed
  from from_ok limit_ok sort_ok listed pg(1) out k sub del(3) untouched remaining
  show ?thesis
    by blast
qed


text \<open>
  Bob has the two media \<^verbatim>\<open>A\<close> and \<^verbatim>\<open>B\<close>; alice deletes with \<^verbatim>\<open>limit=1\<close>: the page
  is the newest medium \<^verbatim>\<open>B\<close>, and \<^verbatim>\<open>A\<close> stays.
\<close>

theorem delete_user_media_takes_one_page_witness:
  "UserMediaRestServlet_on_DELETE server (ask ''alice_token'' [(''limit'', ''1'')]) ''@bob:hs'' world
     = (Inr (200, DeletedMedia [''B''] 1),
        world\<lparr>records := [medium ''hs'' ''A'' ''@bob:hs'' 1577836800001 False,
                            medium ''remote'' ''C'' ''@carol:remote'' 1577836800003 False]\<rparr>)
   \<and> length (user_rows ''hs'' ''@bob:hs'' (records world)) = 2
   \<and> parse_integer server (ask ''alice_token'' [(''limit'', ''1'')]) ''limit'' 100 = Inr 1"
proof -
  have h: "UserMediaRestServlet_on_DELETE (engine ''hs'' int_of)
             (ask ''alice_token'' [(''limit'', ''1'')]) ''@bob:hs'' world
           = (Inr (200, DeletedMedia [''B''] 1),
              world\<lparr>records := [medium ''hs'' ''A'' ''@bob:hs'' 1577836800001 False,
                                  medium ''remote'' ''C'' ''@carol:remote'' 1577836800003 False]\<rparr>)"
    by (simp add: eval_defs deleteByIds_def purge_def key_of_def)
  have l: "parse_integer server (ask ''alice_token'' [(''limit'', ''1'')]) ''limit'' 100 = Inr 1"
    by (simp add: example_defs parse_integer_def)
  have u: "length (user_rows ''hs'' ''@bob:hs'' (records world)) = 2"
    by (simp add: user_rows_def world_def medium_def)
  from delete_user_media_takes_one_page [OF h] h l u show ?thesis
    by (simp add: server_def)
qed

subsection \<open>Deleting a single medium\<close>

lemma engine_get_local_media:
  "get_local_media (engine host io) media_id s = Inr None
     \<longleftrightarrow> (host, media_id) \<notin> key_of ` set (records s)"
  by (force simp add: engine_def find_None_iff image_iff)

lemma engine_delete_one:
  "delete_local_media_ids (engine host io) [media_id] s =
     (if (host, media_id) \<in> set (adapter_err s) \<or> (host, media_id) \<notin> key_of ` set (records s)
      then (Inr ([], 1), s)
      else (Inr ([media_id], 1),
            s\<lparr>records := filter (\<lambda>r. key_of r \<noteq> (host, media_id)) (records s)\<rparr>))"
  by (simp add: engine_def deleteByIds_def purge_def)

lemma delete_by_id_runs:
  assumes "get_user_by_req hs request s = Inr u" and "is_server_admin hs u s = Inr True"
      and "hostname hs = server_name" and "get_local_media hs media_id s = Inr (Some found)"
  shows "DeleteMediaByID_on_DELETE hs request server_name media_id s =
           (case delete_local_media_ids hs [media_id] s of
              (Inl e, s') \<Rightarrow> (Inl e, s')
            | (Inr (deleted_media, n), s') \<Rightarrow> (Inr (200, DeletedMedia deleted_media n), s'))"
  using assms
  by (simp add: DeleteMediaByID_on_DELETE_def action_defs admin_accepted
           split: sum.splits prod.splits)

text \<open>
  Claim C3, amended. For a single-item delete request of an administrator: a
  \<^verbatim>\<open>server_name\<close> other than this server's name is rejected with a 400 (the
  InvalidParameter kind; the call passes no \<^verbatim>\<open>errcode\<close>), and a media id with no local
  record fails with \<^verbatim>\<open>NotFoundError\<close>; in both cases the state is as it was, whatever
  the lookup and the deletion would do. Otherwise the handler returns what the deletion
  of that one id returns. On the engine that is: when the byte-storage adapter removes
  the file, the record is deleted and the body is \<^verbatim>\<open>{deleted_media: [id], total: 1}\<close>;
  when the adapter fails, the record is kept and \<^verbatim>\<open>deleted_media\<close> is empty.
\<close>

theorem single_delete_outcomes:
  assumes "get_user_by_req hs request s = Inr u" and "is_server_admin hs u s = Inr True"
  shows "(hostname hs \<noteq> server_name \<longrightarrow>
            (\<forall>g d. DeleteMediaByID_on_DELETE
                      (hs\<lparr>get_local_media := g, delete_local_media_ids := d\<rparr>)
                      request server_name media_id s
                    = (Inl (SynapseError 400 ''Can only delete local media'' None), s)))
       \<and> (hostname hs = server_name \<and> get_local_media hs media_id s = Inr None \<longrightarrow>
            (\<forall>d. DeleteMediaByID_on_DELETE (hs\<lparr>delete_local_media_ids := d\<rparr>)
                      request server_name media_id s
                    = (Inl (NotFoundError ''Unknown media''), s)))
       \<and> (hostname hs = server_name \<and> get_local_media hs media_id s = Inr (Some found) \<longrightarrow>
            DeleteMediaByID_on_DELETE hs request server_name media_id s =
              (case delete_local_media_ids hs [media_id] s of
                 (Inl e, s') \<Rightarrow> (Inl e, s')
               | (Inr (deleted_media, n), s') \<Rightarrow> (Inr (200, DeletedMedia deleted_media n), s')))
       \<and> kind (SynapseError 400 ''Can only delete local media'' None) = InvalidParameter
       \<and> kind (NotFoundError ''Unknown media'') = NotFound
       \<and> (get_user_by_req (engine host io) request t = Inr v
            \<and> is_server_admin (engine host io) v t = Inr True
            \<and> (host, media_id) \<in> key_of ` set (records t) \<longrightarrow>
            DeleteMediaByID_on_DELETE (engine host io) request host media_id t =
              (if (host, media_id) \<in> set (adapter_err t) then (Inr (200, DeletedMedia [] 1), t)
               else (Inr (200, DeletedMedia [media_id] 1),
                     t\<lparr>records := filter (\<lambda>r. key_of r \<noteq> (host, media_id)) (records t)\<rparr>)))"
proof -
  have pre: "\<And>h. get_user_by_req h = get_user_by_req hs \<Longrightarrow> is_server_admin h = is_server_admin hs
               \<Longrightarrow> assert_requester_is_admin h request s = (Inr (), s)"
    using assms by (simp add: assert_requester_is_admin_apply assert_user_is_admin_apply)
  have a: "hostname hs \<noteq> server_name \<longrightarrow>
            (\<forall>g d. DeleteMediaByID_on_DELETE
                      (hs\<lparr>get_local_media := g, delete_local_media_ids := d\<rparr>)
                      request server_name media_id s
                    = (Inl (SynapseError 400 ''Can only delete local media'' None), s))"
    by (simp add: DeleteMediaByID_on_DELETE_def action_defs pre)
  have b: "hostname hs = server_name \<and> get_local_media hs media_id s = Inr None \<longrightarrow>
            (\<forall>d. DeleteMediaByID_on_DELETE (hs\<lparr>delete_local_media_ids := d\<rparr>)
                      request server_name media_id s
                    = (Inl (NotFoundError ''Unknown media''), s))"
    by (simp add: DeleteMediaByID_on_DELETE_def action_defs pre)
  have c: "hostname hs = server_name \<and> get_local_media hs media_id s = Inr (Some found) \<longrightarrow>
            DeleteMediaByID_on_DELETE hs request server_name media_id s =
              (case delete_local_media_ids hs [media_id] s of
                 (Inl e, s') \<Rightarrow> (Inl e, s')
               | (Inr (deleted_media, n), s') \<Rightarrow> (Inr (200, DeletedMedia deleted_media n), s'))"
    using delete_by_id_runs [OF assms] by blast
  have d: "get_user_by_req (engine host io) request t = Inr v
            \<and> is_server_admin (engine host io) v t = Inr True
            \<and> (host, media_id) \<in> key_of ` set (records t) \<longrightarrow>
            DeleteMediaByID_on_DELETE (engine host io) request host media_id t =
              (if (host, media_id) \<in> set (adapter_err t) then (Inr (200, DeletedMedia [] 1), t)
               else (Inr (200, DeletedMedia [media_id] 1),
                     t\<lparr>records := filter (\<lambda>r. key_of r \<noteq> (host, media_id)) (records t)\<rparr>))"
  proof (intro impI, elim conjE)
    assume adm: "get_user_by_req (engine host io) request t = Inr v"
      "is_server_admin (engine host io) v t = Inr True"
      and ex: "(host, media_id) \<in> key_of ` set (records t)"
    have h: "hostname (engine host io) = host"
      by (simp add: engine_def)
    from ex obtain found where f: "get_local_media (engine host io) media_id t = Inr (Some found)"
      using engine_get_local_media [of host io media_id t]
      by (cases "find (\<lambda>r. key_of r = (host, media_id)) (records t)") (auto simp add: engine_def)
    show "DeleteMediaByID_on_DELETE (engine host io) request host media_id t =
              (if (host, media_id) \<in> set (adapter_err t) then (Inr (200, DeletedMedia [] 1), t)
               else (Inr (200, DeletedMedia [media_id] 1),
                     t\<lparr>records := filter (\<lambda>r. key_of r \<noteq> (host, media_id)) (records t)\<rparr>))"
      unfolding delete_by_id_runs [OF adm h f] engine_delete_one
      using ex by simp
  qed
  from a b c d show ?thesis
    by simp
qed

text \<open>Alice deletes bob's medium \<^verbatim>\<open>A\<close>, whose file the adapter removes.\<close>

theorem single_delete_outcomes_witness:
  "get_user_by_req server (ask ''alice_token'' []) world = Inr alice
   \<and> is_server_admin server alice world = Inr True
   \<and> (''hs'', ''A'') \<in> key_of ` set (records world)
   \<and> DeleteMediaByID_on_DELETE server (ask ''alice_token'' []) ''hs'' ''A'' world
       = (Inr (200, DeletedMedia [''A''] 1),
          world\<lparr>records := [medium ''hs'' ''B'' ''@bob:hs'' 1577836800002 True,
                              medium ''remote'' ''C'' ''@carol:remote'' 1577836800003 False]\<rparr>)"
proof -
  have a: "get_user_by_req (engine ''hs'' int_of) (ask ''alice_token'' []) world = Inr alice"
    "is_server_admin (engine ''hs'' int_of) alice world = Inr True"
    by (simp_all add: example_defs)
  have k: "(''hs'', ''A'') \<in> key_of ` set (records world)"
    by (simp add: world_def medium_def key_of_def)
  from single_delete_outcomes [OF a, where host = "''hs''" and io = int_of and t = world and v = alice
              and media_id = "''A''"] a k
  have "DeleteMediaByID_on_DELETE (engine ''hs'' int_of) (ask ''alice_token'' []) ''hs'' ''A'' world =
          (if (''hs'', ''A'') \<in> set (adapter_err world) then (Inr (200, DeletedMedia [] 1), world)
           else (Inr (200, DeletedMedia [''A''] 1),
                 world\<lparr>records := filter (\<lambda>r. key_of r \<noteq> (''hs'', ''A'')) (records world)\<rparr>))"
    by blast
  with a k show ?thesis
    by (simp add: server_def world_def medium_def key_of_def)
qed

text \<open>
  Claim C3 as stated fails where the byte-storage adapter cannot remove the file: alice
  is an administrator, the server name is the server's own and the record exists, yet
  nothing is deleted and \<^verbatim>\<open>deleted_media\<close> is empty.
\<close>

theorem single_delete_counterexample:
  "get_user_by_req server (ask ''alice_token'' []) (world\<lparr>adapter_err := [(''hs'', ''A'')]\<rparr>)
     = Inr alice
   \<and> is_server_admin server alice (world\<lparr>adapter_err := [(''hs'', ''A'')]\<rparr>) = Inr True
   \<and> hostname server = ''hs''
   \<and> get_local_media server ''A'' (world\<lparr>adapter_err := [(''hs'', ''A'')]\<rparr>)
       = Inr (Some (medium ''hs'' ''A'' ''@bob:hs'' 1577836800001 False))
   \<and> DeleteMediaByID_on_DELETE server (ask ''alice_token'' []) ''hs'' ''A''
         (world\<lparr>adapter_err := [(''hs'', ''A'')]\<rparr>)
       = (Inr (200, DeletedMedia [] 1), world\<lparr>adapter_err := [(''hs'', ''A'')]\<rparr>)
   \<and> fst (DeleteMediaByID_on_DELETE server (ask ''alice_token'' []) ''hs'' ''A''
              (world\<lparr>adapter_err := [(''hs'', ''A'')]\<rparr>))
       \<noteq> Inr (200, DeletedMedia [''A''] 1)"
  by (simp add: eval_defs deleteByIds_def purge_def key_of_def)

end
